theory Spec2Isabelle
  imports Main
begin

section \<open>Python values and strings\<close>

text \<open>
  A Python \<open>str\<close> is a sequence of Unicode code points, and \<open>len\<close> counts code points, so
  strings that come from records are lists of code points. Dictionary keys (the column and
  field names of the source, all ASCII literals) are HOL strings.

  The values a record can hold are \<open>None\<close>, \<open>bool\<close>, \<open>int\<close>, \<open>str\<close>, \<open>pandas.Timestamp\<close> and
  \<open>datetime.datetime\<close>. Floats and nested containers are outside the model. A datetime is
  either naive (a wall-clock reading) or aware (an instant); both are counted in microseconds.
\<close>

type_synonym ustr = "nat list"

datatype pydt = Naive int | Aware int

datatype pyval =
    PNone
  | PBool bool
  | PInt int
  | PStr ustr
  | PTimestamp pydt
  | PDatetime pydt

type_synonym pydict = "(string \<times> pyval) list"

text \<open>\<open>str.isspace\<close> on one code point; \<open>str.strip()\<close> and the \<open>\s\<close> of \<open>re\<close> use the same test.\<close>

definition py_isspace :: "nat \<Rightarrow> bool" where
  "py_isspace c =
     ((9 \<le> c \<and> c \<le> 13) \<or> (28 \<le> c \<and> c \<le> 32) \<or> c = 133 \<or> c = 160 \<or> c = 5760
      \<or> (8192 \<le> c \<and> c \<le> 8202) \<or> c = 8232 \<or> c = 8233 \<or> c = 8239 \<or> c = 8287
      \<or> c = 12288)"

definition py_strip :: "ustr \<Rightarrow> ustr" where
  "py_strip s = rev (dropWhile py_isspace (rev (dropWhile py_isspace s)))"

definition ustr_of :: "string \<Rightarrow> ustr" where
  "ustr_of s = map of_char s"

fun dec_digits :: "nat \<Rightarrow> ustr" where
  "dec_digits n = (if n < 10 then [48 + n] else dec_digits (n div 10) @ [48 + n mod 10])"

declare dec_digits.simps [simp del]

definition str_of_int :: "int \<Rightarrow> ustr" where
  "str_of_int i = (if i < 0 then 45 # dec_digits (nat (- i)) else dec_digits (nat i))"

text \<open>\<open>bool(v)\<close>, as \<open>not record[field]\<close> evaluates it.\<close>

fun truthy :: "pyval \<Rightarrow> bool" where
  "truthy PNone = False"
| "truthy (PBool b) = b"
| "truthy (PInt i) = (i \<noteq> 0)"
| "truthy (PStr s) = (s \<noteq> [])"
| "truthy (PTimestamp d) = True"
| "truthy (PDatetime d) = True"

section \<open>Library functions taken as parameters\<close>

text \<open>
  The validator calls \<open>int\<close> on strings, \<open>datetime.strptime\<close>, Django's \<open>timezone.make_aware\<close>
  and \<open>timezone.now\<close>. They are not code of the repository; the model takes them as fields of
  an environment, with \<open>None\<close> where the library raises.
\<close>

datatype dt_format = Fmt_T | Fmt_T_frac | Fmt_space

record pylib =
  int_of_str :: "ustr \<Rightarrow> int option"
  strptime :: "ustr \<Rightarrow> dt_format \<Rightarrow> int option"
  make_aware :: "int \<Rightarrow> int option"
  now :: int
  str_of_dt :: "pydt \<Rightarrow> ustr"

text \<open>\<open>str(v)\<close>.\<close>

fun py_str :: "pylib \<Rightarrow> pyval \<Rightarrow> ustr" where
  "py_str L PNone = ustr_of ''None''"
| "py_str L (PBool b) = (if b then ustr_of ''True'' else ustr_of ''False'')"
| "py_str L (PInt i) = str_of_int i"
| "py_str L (PStr s) = s"
| "py_str L (PTimestamp d) = str_of_dt L d"
| "py_str L (PDatetime d) = str_of_dt L d"

text \<open>\<open>int(v)\<close>; \<open>None\<close> stands for the \<open>ValueError\<close> or \<open>TypeError\<close> that the validator catches.\<close>

fun py_int :: "pylib \<Rightarrow> pyval \<Rightarrow> int option" where
  "py_int L PNone = None"
| "py_int L (PBool b) = Some (if b then 1 else 0)"
| "py_int L (PInt i) = Some i"
| "py_int L (PStr s) = int_of_str L s"
| "py_int L (PTimestamp d) = None"
| "py_int L (PDatetime d) = None"

section \<open>The relational store\<close>

text \<open>
  The three tables, each a list of rows (column name to value), and the identity sequence of
  \<open>hired_employees.id\<close>.
\<close>

record database =
  departments :: "pydict list"
  jobs :: "pydict list"
  hired_employees :: "pydict list"
  hired_employees_seq :: int

text \<open>\<open>Model.objects.filter(id=i).exists()\<close>.\<close>

definition id_exists :: "pydict list \<Rightarrow> int \<Rightarrow> bool" where
  "id_exists tbl i = (\<exists>r \<in> set tbl. map_of r ''id'' = Some (PInt i))"

section \<open>validators.py: DataQualityValidator\<close>

text \<open>
  Each validator returns the triple \<open>(is_valid, error_message, error_type)\<close>. The message is
  \<open>'; '.join(errors)\<close>; the model keeps the list \<open>errors\<close> itself, one constructor for each
  message text of the source.
\<close>

datatype verr =
    MissingField string
  | NameTooShort
  | NameTooLong
  | NameInvalidChars
  | DateFormatInvalid
  | DateTypeInvalid
  | DateFuture
  | DateError
  | DeptNotPositive
  | DeptNotExists int
  | DeptNotInt
  | JobNotPositive
  | JobNotExists int
  | JobNotInt
  | IdOutOfRange
  | IdNotPositive
  | IdExists int
  | IdNotInt
  | UnknownTable string

datatype error_type = MISSING_REQUIRED_FIELDS | VALIDATION_ERROR | UNKNOWN_TABLE

type_synonym vresult = "bool \<times> verr list option \<times> error_type option"

text \<open>
  The test of the required-fields loop:
  \<open>field not in record or not record[field] or str(record[field]).strip() == ''\<close>.
\<close>

definition field_missing :: "pylib \<Rightarrow> pydict \<Rightarrow> string \<Rightarrow> bool" where
  "field_missing L r f =
     (case map_of r f of
        None \<Rightarrow> True
      | Some v \<Rightarrow> (if truthy v then py_strip (py_str L v) = [] else True))"

definition missing_errors :: "pylib \<Rightarrow> pydict \<Rightarrow> string list \<Rightarrow> verr list" where
  "missing_errors L r fs = map MissingField (filter (field_missing L r) fs)"

text \<open>
  The character class \<open>[a-zA-Z\<dots>\s\-\.]\<close> of the name pattern: the ASCII letters, the twelve
  accented letters written out in the pattern (code points 225, 233, 237, 243, 250, 193, 201,
  205, 211, 218, 241, 209), whitespace, hyphen and period.
\<close>

definition name_char :: "nat \<Rightarrow> bool" where
  "name_char c =
     ((97 \<le> c \<and> c \<le> 122) \<or> (65 \<le> c \<and> c \<le> 90)
      \<or> c \<in> set [225, 233, 237, 243, 250, 193, 201, 205, 211, 218, 241, 209]
      \<or> py_isspace c \<or> c = 45 \<or> c = 46)"

text \<open>
  \<open>$\<close> holds at the end of the string and just before a newline that ends the string.
\<close>

definition at_dollar :: "ustr \<Rightarrow> nat \<Rightarrow> bool" where
  "at_dollar s k = (k = length s \<or> (Suc k = length s \<and> s ! k = 10))"

text \<open>
  \<open>re.match(r'^[\<dots>]+$', s)\<close>: some non-empty run of class characters from the start ends
  where \<open>$\<close> holds (the greedy match and its backtracking try exactly these lengths).
\<close>

definition re_match_name :: "ustr \<Rightarrow> bool" where
  "re_match_name s =
     (\<exists>k \<in> set [1 ..< Suc (length (takeWhile name_char s))]. at_dollar s k)"

definition name_errors :: "ustr \<Rightarrow> verr list" where
  "name_errors name =
     (if length name < 2 then [NameTooShort]
      else if length name > 255 then [NameTooLong]
      else if \<not> re_match_name name then [NameInvalidChars]
      else [])"

text \<open>The loop over the three formats: the first one that parses wins.\<close>

fun try_formats :: "pylib \<Rightarrow> ustr \<Rightarrow> dt_format list \<Rightarrow> int option" where
  "try_formats L s [] = None"
| "try_formats L s (f # fs) =
     (case strptime L s f of Some t \<Rightarrow> Some t | None \<Rightarrow> try_formats L s fs)"

text \<open>
  The part of the date block after \<open>dt\<close> is known: make it aware if it is naive, compare with
  \<open>timezone.now()\<close>. An exception of \<open>make_aware\<close> is caught by the enclosing \<open>except\<close>.
\<close>

definition aware_instant :: "pylib \<Rightarrow> pydt \<Rightarrow> int option" where
  "aware_instant L d = (case d of Naive t \<Rightarrow> make_aware L t | Aware t \<Rightarrow> Some t)"

definition date_tail :: "pylib \<Rightarrow> pydt \<Rightarrow> verr list" where
  "date_tail L d =
     (case aware_instant L d of
        None \<Rightarrow> [DateError]
      | Some t \<Rightarrow> (if t > now L then [DateFuture] else []))"

text \<open>
  The date block. \<open>Inl\<close> is the early \<open>return\<close> of the two branches that leave the function,
  \<open>Inr\<close> the error list with which the function goes on.
\<close>

definition check_datetime :: "pylib \<Rightarrow> pyval \<Rightarrow> verr list \<Rightarrow> vresult + verr list" where
  "check_datetime L v errors =
     (case v of
        PStr s \<Rightarrow>
          (case try_formats L s [Fmt_T, Fmt_T_frac, Fmt_space] of
             None \<Rightarrow> Inl (False, Some (errors @ [DateFormatInvalid]), Some VALIDATION_ERROR)
           | Some t \<Rightarrow> Inr (errors @ date_tail L (Naive t)))
      | PTimestamp d \<Rightarrow> Inr (errors @ date_tail L d)
      | PDatetime d \<Rightarrow> Inr (errors @ date_tail L d)
      | _ \<Rightarrow> Inl (False, Some (errors @ [DateTypeInvalid]), Some VALIDATION_ERROR))"

definition dept_errors :: "pylib \<Rightarrow> database \<Rightarrow> pyval \<Rightarrow> verr list" where
  "dept_errors L db v =
     (case py_int L v of
        None \<Rightarrow> [DeptNotInt]
      | Some d \<Rightarrow>
          (if d \<le> 0 then [DeptNotPositive]
           else if \<not> id_exists (departments db) d then [DeptNotExists d]
           else []))"

definition job_errors :: "pylib \<Rightarrow> database \<Rightarrow> pyval \<Rightarrow> verr list" where
  "job_errors L db v =
     (case py_int L v of
        None \<Rightarrow> [JobNotInt]
      | Some j \<Rightarrow>
          (if j \<le> 0 then [JobNotPositive]
           else if \<not> id_exists (jobs db) j then [JobNotExists j]
           else []))"

text \<open>\<open>if 'id' in record and record['id'] is not None\<close>, for the employee validator.\<close>

definition emp_id_errors :: "pylib \<Rightarrow> database \<Rightarrow> pydict \<Rightarrow> verr list" where
  "emp_id_errors L db r =
     (case map_of r ''id'' of
        None \<Rightarrow> []
      | Some PNone \<Rightarrow> []
      | Some v \<Rightarrow>
          (case py_int L v of
             None \<Rightarrow> [IdNotInt]
           | Some i \<Rightarrow>
               (if i \<le> 0 \<or> i > 2147483647 then [IdOutOfRange]
                else if id_exists (hired_employees db) i then [IdExists i]
                else [])))"

definition finish :: "verr list \<Rightarrow> vresult" where
  "finish errors =
     (if errors \<noteq> [] then (False, Some errors, Some VALIDATION_ERROR) else (True, None, None))"

definition validate_hired_employee :: "pylib \<Rightarrow> database \<Rightarrow> pydict \<Rightarrow> vresult" where
  "validate_hired_employee L db r =
     (let errors = missing_errors L r [''name'', ''datetime'', ''department_id'', ''job_id'']
      in if errors \<noteq> [] then (False, Some errors, Some MISSING_REQUIRED_FIELDS)
         else
           let name = py_strip (py_str L (the (map_of r ''name'')));
               errors = name_errors name
           in case check_datetime L (the (map_of r ''datetime'')) errors of
                Inl res \<Rightarrow> res
              | Inr errors \<Rightarrow>
                  finish (errors
                          @ dept_errors L db (the (map_of r ''department_id''))
                          @ job_errors L db (the (map_of r ''job_id''))
                          @ emp_id_errors L db r))"





section \<open>The store's primitives and the world state\<close>

text \<open>
  What the database server and the object storage answer is not code of the repository. The
  model takes it as an environment: whether a connection, a \<open>COPY\<close>, a \<open>COMMIT\<close> or a
  \<open>TRUNCATE\<close> succeeds in a given state of the store, whether the tables of the store carry
  the foreign keys that models.py declares, what the object storage lists and returns, and
  what the pandas readers and converters return (\<open>None\<close> for \<open>NaN\<close>/\<open>NaT\<close>). A server that
  checks a constraint refuses the \<open>COPY\<close> or the \<open>COMMIT\<close>; the code of the repository sees
  only the exception.
\<close>

datatype exn = DatabaseError | StorageError | ValueError | KeyError | AttributeError | ParserError

type_synonym dataframe = "pydict list"

record sysenv =
  connect_ok :: "database \<Rightarrow> bool"
  copy_ok :: "database \<Rightarrow> string \<Rightarrow> string list \<Rightarrow> pydict list \<Rightarrow> bool"
  commit_ok :: "database \<Rightarrow> bool"
  truncate_ok :: "database \<Rightarrow> string \<Rightarrow> bool"
  foreign_keys :: bool
  list_objects :: "string \<Rightarrow> string \<Rightarrow> exn + string list"
  list_common_prefixes :: "string \<Rightarrow> string \<Rightarrow> exn + string list option"
  get_object :: "string \<Rightarrow> string \<Rightarrow> exn + ustr"
  download_file :: "string \<Rightarrow> string \<Rightarrow> exn + unit"
  read_table :: "string \<Rightarrow> string \<Rightarrow> exn + dataframe"
  read_csv :: "ustr \<Rightarrow> string list option \<Rightarrow> exn + dataframe"
  to_datetime :: "pyval \<Rightarrow> pydt option"
  to_numeric :: "pyval \<Rightarrow> int option"
  default_bucket :: string
  path_exists :: "string \<Rightarrow> bool"
  open_first_line :: "string \<Rightarrow> exn + ustr"
  read_csv_header :: "string \<Rightarrow> exn + string list"
  upload_file :: "string \<Rightarrow> string \<Rightarrow> string \<Rightarrow> exn + unit"

text \<open>
  The log keeps the error and warning records of the modelled functions and the info records
  that carry a result (rows loaded, rows restored, records flushed).
\<close>

datatype event =
    Truncated string
  | TruncateFailed string
  | CopyLoaded nat string
  | CopyFailed
  | CopyNoIdLoaded nat string
  | CopyNoIdFailed
  | BatchesFailed string
  | CleanFailed
  | EmptyAfterCleaning
  | ProcessCsvFailed
  | ProcessFileFailed string
  | LoadedFromMinio string
  | LoadFromMinioFailed string
  | NoBackupsFound string
  | NoParquetFiles string
  | EmptyParquetFile string
  | RestoredFile nat string
  | RestoredTotal nat string
  | RestoreFailed string
  | RestoreDataFrameFailed
  | Flushed nat string
  | FlushFailed string
  | CsvStructureFailed string
  | UploadFailed string
  | MigrationStarted string
  | CsvFileNotFound string

text \<open>
  The world: the store, the calls of \<open>cursor.copy_from\<close> issued so far (table, column list,
  rows written to the buffer), the log, and the rows of \<open>DataMigrationLog\<close>.
\<close>

record world =
  db :: database
  copy_calls :: "(string \<times> string list \<times> pydict list) list"
  log :: "event list"
  migration_log :: "(string \<times> pydict \<times> verr list \<times> error_type) list"

definition table_rows :: "database \<Rightarrow> string \<Rightarrow> pydict list" where
  "table_rows d t =
     (if t = ''hired_employees'' then hired_employees d
      else if t = ''departments'' then departments d
      else if t = ''jobs'' then jobs d
      else [])"

definition known_table :: "string \<Rightarrow> bool" where
  "known_table t = (t = ''hired_employees'' \<or> t = ''departments'' \<or> t = ''jobs'')"

text \<open>The identity column: consecutive values of the sequence for rows that come without id.\<close>

fun number_rows :: "int \<Rightarrow> pydict list \<Rightarrow> pydict list" where
  "number_rows n [] = []"
| "number_rows n (r # rs) = ((''id'', PInt n) # r) # number_rows (n + 1) rs"

text \<open>
  The effect of an accepted \<open>COPY table (columns) FROM STDIN\<close>: the fields of each line are
  matched with the column list by position and the rows are appended; a column list for
  \<open>hired_employees\<close> without \<open>id\<close> draws the ids from the identity sequence. The text form of
  the cells is not modelled: a stored cell is the cell that was written.
\<close>

definition pg_insert :: "database \<Rightarrow> string \<Rightarrow> string list \<Rightarrow> pydict list \<Rightarrow> database" where
  "pg_insert d t cols rows =
     (let new = map (\<lambda>r. zip cols (map snd r)) rows
      in if t = ''hired_employees'' then
           (if ''id'' \<in> set cols then d\<lparr>hired_employees := hired_employees d @ new\<rparr>
            else d\<lparr>hired_employees := hired_employees d @ number_rows (hired_employees_seq d) new,
                   hired_employees_seq := hired_employees_seq d + int (length new)\<rparr>)
         else if t = ''departments'' then d\<lparr>departments := departments d @ new\<rparr>
         else if t = ''jobs'' then d\<lparr>jobs := jobs d @ new\<rparr>
         else d)"

text \<open>
  \<open>cursor.copy_from\<close> inside an open transaction: the pending state of the store on success,
  an exception when a line has not as many fields as the column list or the server refuses.
\<close>

definition copy_from ::
  "sysenv \<Rightarrow> string \<Rightarrow> string list \<Rightarrow> pydict list \<Rightarrow> database \<Rightarrow> exn + database" where
  "copy_from E t cols rows d =
     (if known_table t \<and> list_all (\<lambda>r. length r = length cols) rows \<and> copy_ok E d t cols rows
      then Inr (pg_insert d t cols rows)
      else Inl DatabaseError)"

text \<open>
  \<open>TRUNCATE TABLE t RESTART IDENTITY CASCADE\<close>. With the foreign keys of models.py in
  place (\<open>fk\<close>), \<open>hired_employees\<close> references the two other tables, and truncating one
  of them empties \<open>hired_employees\<close> as well.
\<close>

definition pg_truncate :: "bool \<Rightarrow> database \<Rightarrow> string \<Rightarrow> database" where
  "pg_truncate fk d t =
     (if t = ''hired_employees'' then d\<lparr>hired_employees := [], hired_employees_seq := 1\<rparr>
      else if t = ''departments'' then
        (if fk then d\<lparr>departments := [], hired_employees := [], hired_employees_seq := 1\<rparr>
         else d\<lparr>departments := []\<rparr>)
      else if t = ''jobs'' then
        (if fk then d\<lparr>jobs := [], hired_employees := [], hired_employees_seq := 1\<rparr>
         else d\<lparr>jobs := []\<rparr>)
      else d)"

section \<open>services.py: DataMigrationService, the load path\<close>

text \<open>
  A method returns its result, or the exception it raises, and the world it leaves behind.
\<close>

definition truncate_table_before_load :: "sysenv \<Rightarrow> string \<Rightarrow> world \<Rightarrow> (exn + unit) \<times> world" where
  "truncate_table_before_load E table_name w =
     (let attempt =
            (if connect_ok E (db w) \<and> known_table table_name \<and> truncate_ok E (db w) table_name
                \<and> commit_ok E (pg_truncate (foreign_keys E) (db w) table_name)
             then Inr (pg_truncate (foreign_keys E) (db w) table_name) else Inl DatabaseError)
      in case attempt of
           Inr d \<Rightarrow> (Inr (), w\<lparr>db := d, log := log w @ [Truncated table_name]\<rparr>)
         | Inl e \<Rightarrow> (Inr (), w\<lparr>log := log w @ [TruncateFailed table_name]\<rparr>))"

definition has_columns :: "dataframe \<Rightarrow> string list \<Rightarrow> bool" where
  "has_columns df cols = list_all (\<lambda>r. list_all (\<lambda>c. map_of r c \<noteq> None) cols) df"

definition is_timestamp_or_na :: "pyval \<Rightarrow> bool" where
  "is_timestamp_or_na v = (case v of PTimestamp d \<Rightarrow> True | PNone \<Rightarrow> True | _ \<Rightarrow> False)"

text \<open>
  \<open>_copy_hired_employees\<close>: \<open>.dt.strftime\<close> needs a datetime column, the four \<open>astype(str)\<close>
  need their columns; then every column of the frame is written and copied under the
  five-column list.
\<close>

definition copy_hired_employees ::
  "sysenv \<Rightarrow> dataframe \<Rightarrow> database \<Rightarrow> (string \<times> string list \<times> pydict list) list \<times> (exn + database)" where
  "copy_hired_employees E df d =
     (if \<not> has_columns df [''datetime'', ''id'', ''name'', ''department_id'', ''job_id''] then ([], Inl KeyError)
      else if \<not> list_all (\<lambda>r. is_timestamp_or_na (the (map_of r ''datetime''))) df then ([], Inl AttributeError)
      else
        let cols = [''id'', ''name'', ''datetime'', ''department_id'', ''job_id'']
        in ([(''hired_employees'', cols, df)], copy_from E ''hired_employees'' cols df d))"

definition copy_departments ::
  "sysenv \<Rightarrow> dataframe \<Rightarrow> database \<Rightarrow> (string \<times> string list \<times> pydict list) list \<times> (exn + database)" where
  "copy_departments E df d =
     (if \<not> has_columns df [''id'', ''name''] then ([], Inl KeyError)
      else ([(''departments'', [''id'', ''name''], df)], copy_from E ''departments'' [''id'', ''name''] df d))"

definition copy_jobs ::
  "sysenv \<Rightarrow> dataframe \<Rightarrow> database \<Rightarrow> (string \<times> string list \<times> pydict list) list \<times> (exn + database)" where
  "copy_jobs E df d =
     (if \<not> has_columns df [''id'', ''name''] then ([], Inl KeyError)
      else ([(''jobs'', [''id'', ''name''], df)], copy_from E ''jobs'' [''id'', ''name''] df d))"

text \<open>
  \<open>_load_with_copy\<close>: one connection and one transaction for the frame it is given. The
  connection is closed in \<open>finally\<close>; without a commit nothing of the transaction remains.
\<close>

definition load_with_copy :: "sysenv \<Rightarrow> dataframe \<Rightarrow> string \<Rightarrow> world \<Rightarrow> (exn + unit) \<times> world" where
  "load_with_copy E df table_name w =
     (if \<not> connect_ok E (db w) then (Inl DatabaseError, w\<lparr>log := log w @ [CopyFailed]\<rparr>)
      else
        let (calls, res) =
              (if table_name = ''hired_employees'' then copy_hired_employees E df (db w)
               else if table_name = ''departments'' then copy_departments E df (db w)
               else if table_name = ''jobs'' then copy_jobs E df (db w)
               else ([], Inr (db w)));
            w1 = w\<lparr>copy_calls := copy_calls w @ calls\<rparr>
        in case res of
             Inl e \<Rightarrow> (Inl e, w1\<lparr>log := log w1 @ [CopyFailed]\<rparr>)
           | Inr pending \<Rightarrow>
               (if commit_ok E pending
                then (Inr (), w1\<lparr>db := pending, log := log w1 @ [CopyLoaded (length df) table_name]\<rparr>)
                else (Inl DatabaseError, w1\<lparr>log := log w1 @ [CopyFailed]\<rparr>)))"

text \<open>\<open>range(0, total, step)\<close> with \<open>df.iloc[i:i + step]\<close> at each index, for a positive step.\<close>

function chunks_from :: "nat \<Rightarrow> nat \<Rightarrow> 'a list \<Rightarrow> 'a list list" where
  "chunks_from B i xs =
     (if B = 0 \<or> length xs \<le> i then [] else take B (drop i xs) # chunks_from B (i + B) xs)"
  by pat_completeness auto
termination
  by (relation "measure (\<lambda>(B, i, xs). length xs - i)") auto

declare chunks_from.simps [simp del]

text \<open>
  The slices a \<open>for i in range(0, len(df), step)\<close> loop visits: \<open>range\<close> raises \<open>ValueError\<close> for
  step zero and is empty for a negative step.
\<close>

definition range_chunks :: "int \<Rightarrow> 'a list \<Rightarrow> exn + 'a list list" where
  "range_chunks step xs =
     (if step = 0 then Inl ValueError
      else if step < 0 then Inr []
      else Inr (chunks_from (nat step) 0 xs))"

text \<open>The body of the batch loop, chunk after chunk; the first exception ends the loop.\<close>

fun load_chunks :: "sysenv \<Rightarrow> string \<Rightarrow> dataframe list \<Rightarrow> world \<Rightarrow> (exn + unit) \<times> world" where
  "load_chunks E table_name [] w = (Inr (), w)"
| "load_chunks E table_name (batch_df # rest) w =
     (case load_with_copy E batch_df table_name w of
        (Inl e, w1) \<Rightarrow> (Inl e, w1)
      | (Inr u, w1) \<Rightarrow> load_chunks E table_name rest w1)"

text \<open>\<open>_load_with_copy_batches\<close>, with \<open>self.batch_size\<close> as a parameter (the constructor sets 1000).\<close>

definition load_with_copy_batches ::
  "sysenv \<Rightarrow> int \<Rightarrow> dataframe \<Rightarrow> string \<Rightarrow> world \<Rightarrow> (exn + unit) \<times> world" where
  "load_with_copy_batches E batch_size df table_name w =
     (case range_chunks batch_size df of
        Inl e \<Rightarrow> (Inl e, w\<lparr>log := log w @ [BatchesFailed table_name]\<rparr>)
      | Inr cs \<Rightarrow>
          (case load_chunks E table_name cs w of
             (Inl e, w1) \<Rightarrow> (Inl e, w1\<lparr>log := log w1 @ [BatchesFailed table_name]\<rparr>)
           | (Inr u, w1) \<Rightarrow> (Inr (), w1)))"

section \<open>services.py: cleaning a frame read from CSV\<close>

text \<open>
  A frame is the list of its rows, each row an association list in column order; \<open>NaN\<close>,
  \<open>NaT\<close>, \<open>pd.NA\<close> and \<open>None\<close> cells are all \<open>PNone\<close>. The pandas calls are modelled row by
  row; of their exceptions the model keeps the \<open>KeyError\<close> of a missing column, the
  \<open>ValueError\<close> of \<open>astype('int32')\<close> on a cell that is no integer, and the division by zero
  of the closing log line.
\<close>

definition isna :: "pyval \<Rightarrow> bool" where
  "isna v = (v = PNone)"

definition set_cell :: "string \<Rightarrow> (pyval \<Rightarrow> pyval) \<Rightarrow> pydict \<Rightarrow> pydict" where
  "set_cell c f r = map (\<lambda>(k, v). if k = c then (k, f v) else (k, v)) r"

definition na_words :: "ustr list" where
  "na_words = map ustr_of [''nan'', ''NaN'', ''NAN'', ''null'', ''NULL'', ''None'', ''NONE'', []]"

text \<open>\<open>df.dropna(how='all')\<close>.\<close>

definition dropna_all :: "dataframe \<Rightarrow> dataframe" where
  "dropna_all df = filter (\<lambda>r. list_ex (\<lambda>(k, v). \<not> isna v) r) df"

text \<open>\<open>df.replace([\<dots>], pd.NA)\<close>.\<close>

definition replace_na_words :: "dataframe \<Rightarrow> dataframe" where
  "replace_na_words df =
     map (map (\<lambda>(k, v). (k, (case v of PStr s \<Rightarrow> (if s \<in> set na_words then PNone else v) | _ \<Rightarrow> v)))) df"

text \<open>\<open>df.dropna(subset=cols)\<close>, for columns that exist.\<close>

definition dropna_subset :: "string list \<Rightarrow> dataframe \<Rightarrow> dataframe" where
  "dropna_subset cols df = filter (\<lambda>r. list_all (\<lambda>c. \<not> isna (the (map_of r c))) cols) df"

text \<open>
  \<open>str.lower\<close>, used only to compare with the words \<open>nan\<close>, \<open>none\<close>, \<open>null\<close>: no code point
  outside \<open>A\<close> to \<open>Z\<close> has one of their letters as its lower case, so the ASCII rule decides
  the comparison.
\<close>

definition py_lower :: "ustr \<Rightarrow> ustr" where
  "py_lower s = map (\<lambda>c. if 65 \<le> c \<and> c \<le> 90 then c + 32 else c) s"

definition int32_wrap :: "int \<Rightarrow> int" where
  "int32_wrap i = (i + 2147483648) mod 4294967296 - 2147483648"

definition cell_int :: "pyval \<Rightarrow> int" where
  "cell_int v = (case v of PInt i \<Rightarrow> i | _ \<Rightarrow> 0)"

text \<open>\<open>df.drop_duplicates(subset=['id'], keep='first')\<close>.\<close>

fun drop_duplicates_id :: "pyval list \<Rightarrow> dataframe \<Rightarrow> dataframe" where
  "drop_duplicates_id seen [] = []"
| "drop_duplicates_id seen (r # rs) =
     (let i = the (map_of r ''id'')
      in if i \<in> set seen then drop_duplicates_id seen rs
         else r # drop_duplicates_id (i # seen) rs)"

definition emp_columns :: "string list" where
  "emp_columns = [''id'', ''name'', ''datetime'', ''department_id'', ''job_id'']"

text \<open>
  \<open>_clean_dataframe\<close> for \<open>hired_employees\<close>, step by step as in the source; the result is
  the frame returned and the error records logged. An exception leaves through
  \<open>except: return df\<close> with the frame as it is at that point.
\<close>

definition clean_hired_employees :: "pylib \<Rightarrow> sysenv \<Rightarrow> dataframe \<Rightarrow> dataframe \<times> event list" where
  "clean_hired_employees L E df0 =
     (let df1 = dropna_all df0;
          df2 = replace_na_words df1
      in if \<not> has_columns df2 emp_columns then (df2, [CleanFailed])
         else
           let df3 = dropna_subset emp_columns df2;
               df4 = map (set_cell ''name'' (\<lambda>v. PStr (py_strip (py_str L v)))) df3;
               df5 = filter (\<lambda>r. the (map_of r ''name'') \<noteq> PStr []) df4;
               df6 = filter (\<lambda>r. py_lower (py_str L (the (map_of r ''name'')))
                                   \<notin> set (map ustr_of [''nan'', ''none'', ''null'', []])) df5;
               df7 = map (set_cell ''datetime''
                            (\<lambda>v. case to_datetime E v of None \<Rightarrow> PNone | Some d \<Rightarrow> PTimestamp d)) df6;
               df8 = dropna_subset [''datetime''] df7;
               df9 = map (set_cell ''job_id'' (\<lambda>v. PStr (py_strip (py_str L v))))
                       (map (set_cell ''department_id'' (\<lambda>v. PStr (py_strip (py_str L v)))) df8);
               df10 = filter (\<lambda>r. the (map_of r ''department_id'') \<notin> PStr ` set na_words) df9;
               df11 = filter (\<lambda>r. the (map_of r ''job_id'') \<notin> PStr ` set na_words) df10;
               num = (\<lambda>v. case to_numeric E v of None \<Rightarrow> PNone | Some i \<Rightarrow> PInt i);
               df12 = map (set_cell ''job_id'' num) (map (set_cell ''department_id'' num) df11);
               df13 = dropna_subset [''department_id'', ''job_id''] df12;
               df14 = (if df13 = [] then df13
                       else filter (\<lambda>r. cell_int (the (map_of r ''department_id'')) > 0
                                          \<and> cell_int (the (map_of r ''job_id'')) > 0)
                              (map (set_cell ''job_id'' (\<lambda>v. PInt (int32_wrap (cell_int v))))
                                 (map (set_cell ''department_id'' (\<lambda>v. PInt (int32_wrap (cell_int v)))) df13)));
               df15 = drop_duplicates_id [] df14
           in if df14 = [] then (df15, [CleanFailed]) else (df15, []))"

text \<open>
  \<open>astype('int32')\<close> on the \<open>id\<close> column of a department or job frame: \<open>None\<close> when a cell is
  no integer (the \<open>ValueError\<close>).
\<close>

fun ids_to_int32 :: "pylib \<Rightarrow> dataframe \<Rightarrow> dataframe option" where
  "ids_to_int32 L [] = Some []"
| "ids_to_int32 L (r # rs) =
     (case py_int L (the (map_of r ''id'')) of
        None \<Rightarrow> None
      | Some i \<Rightarrow>
          (case ids_to_int32 L rs of
             None \<Rightarrow> None
           | Some rs' \<Rightarrow> Some (set_cell ''id'' (\<lambda>v. PInt (int32_wrap i)) r # rs')))"

definition clean_reference :: "pylib \<Rightarrow> dataframe \<Rightarrow> dataframe \<times> event list" where
  "clean_reference L df0 =
     (let df1 = dropna_all df0;
          df2 = replace_na_words df1
      in if \<not> has_columns df2 [''id'', ''name''] then (df2, [CleanFailed])
         else
           let df3 = dropna_subset [''id'', ''name''] df2;
               df4 = map (set_cell ''name'' (\<lambda>v. PStr (py_strip (py_str L v)))) df3;
               df5 = filter (\<lambda>r. the (map_of r ''name'') \<noteq> PStr []) df4
           in if df5 = [] then (df5, [CleanFailed])
              else (case ids_to_int32 L df5 of
                      None \<Rightarrow> (df5, [CleanFailed])
                    | Some df6 \<Rightarrow> (drop_duplicates_id [] df6, [])))"

definition clean_dataframe :: "pylib \<Rightarrow> sysenv \<Rightarrow> dataframe \<Rightarrow> string \<Rightarrow> dataframe \<times> event list" where
  "clean_dataframe L E df table_name =
     (if table_name = ''hired_employees'' then clean_hired_employees L E df
      else if table_name = ''departments'' \<or> table_name = ''jobs'' then clean_reference L df
      else if df = [] then (df, [CleanFailed]) else (df, []))"

definition get_expected_columns :: "string \<Rightarrow> string list" where
  "get_expected_columns table_name =
     (if table_name = ''hired_employees'' then emp_columns
      else if table_name = ''departments'' then [''id'', ''name'']
      else if table_name = ''jobs'' then [''id'', ''name'']
      else [])"

text \<open>\<open>sub in s\<close> for strings.\<close>

fun contains :: "'a list \<Rightarrow> 'a list \<Rightarrow> bool" where
  "contains sub [] = (sub = [])"
| "contains sub (y # ys) = (take (length sub) (y # ys) = sub \<or> contains sub ys)"

text \<open>
  \<open>_process_csv\<close>. The first line decides whether the parser is given the expected column
  names; the cleaned frame goes to the batch loader. Every exception is logged and raised
  again.
\<close>

definition process_csv ::
  "pylib \<Rightarrow> sysenv \<Rightarrow> int \<Rightarrow> ustr \<Rightarrow> string \<Rightarrow> string list \<Rightarrow> world \<Rightarrow> (exn + unit) \<times> world" where
  "process_csv L E batch_size content table_name expected_columns w =
     (let first_line = py_strip (takeWhile (\<lambda>c. c \<noteq> 10) content)
      in if first_line = [] then (Inr (), w)
         else
           let has_header = list_ex (\<lambda>col. contains (ustr_of col) first_line) expected_columns
           in case read_csv E content (if has_header then None else Some expected_columns) of
                Inl e \<Rightarrow> (Inl e, w\<lparr>log := log w @ [ProcessCsvFailed]\<rparr>)
              | Inr df0 \<Rightarrow>
                  let (df, evs) = clean_dataframe L E df0 table_name;
                      w1 = w\<lparr>log := log w @ evs\<rparr>
                  in if df = [] then (Inr (), w1\<lparr>log := log w1 @ [EmptyAfterCleaning]\<rparr>)
                     else (case load_with_copy_batches E batch_size df table_name w1 of
                             (Inl e, w2) \<Rightarrow> (Inl e, w2\<lparr>log := log w2 @ [ProcessCsvFailed]\<rparr>)
                           | (Inr u, w2) \<Rightarrow> (Inr (), w2)))"

definition ends_with :: "'a list \<Rightarrow> 'a list \<Rightarrow> bool" where
  "ends_with suf s = (length suf \<le> length s \<and> drop (length s - length suf) s = suf)"

text \<open>
  The loop over the listed objects of \<open>load_from_minio_to_postgres\<close>: an exception while one
  file is read or processed is logged and the loop goes on with the next file.
\<close>

fun process_objects ::
  "pylib \<Rightarrow> sysenv \<Rightarrow> int \<Rightarrow> string \<Rightarrow> string list \<Rightarrow> world \<Rightarrow> world" where
  "process_objects L E batch_size table_name [] w = w"
| "process_objects L E batch_size table_name (key # keys) w =
     (if ends_with ''.csv'' key then
        (case get_object E (default_bucket E) key of
           Inl e \<Rightarrow>
             process_objects L E batch_size table_name keys (w\<lparr>log := log w @ [ProcessFileFailed key]\<rparr>)
         | Inr content \<Rightarrow>
             (case process_csv L E batch_size content table_name (get_expected_columns table_name) w of
                (Inl e, w1) \<Rightarrow>
                  process_objects L E batch_size table_name keys (w1\<lparr>log := log w1 @ [ProcessFileFailed key]\<rparr>)
              | (Inr u, w1) \<Rightarrow> process_objects L E batch_size table_name keys w1))
      else process_objects L E batch_size table_name keys w)"

text \<open>The statements of \<open>load_from_minio_to_postgres\<close> after the call of the truncation.\<close>

definition load_after_truncate ::
  "pylib \<Rightarrow> sysenv \<Rightarrow> int \<Rightarrow> string \<Rightarrow> world \<Rightarrow> bool \<times> world" where
  "load_after_truncate L E batch_size table_name w =
     (case list_objects E (default_bucket E) (''raw_data/'' @ table_name @ ''/'') of
        Inl e \<Rightarrow> (False, w\<lparr>log := log w @ [LoadFromMinioFailed table_name]\<rparr>)
      | Inr keys \<Rightarrow>
          (let w1 = process_objects L E batch_size table_name keys w
           in (True, w1\<lparr>log := log w1 @ [LoadedFromMinio table_name]\<rparr>)))"

definition load_from_minio_to_postgres ::
  "pylib \<Rightarrow> sysenv \<Rightarrow> int \<Rightarrow> string \<Rightarrow> world \<Rightarrow> bool \<times> world" where
  "load_from_minio_to_postgres L E batch_size table_name w =
     (case truncate_table_before_load E table_name w of
        (Inl e, w1) \<Rightarrow> (False, w1\<lparr>log := log w1 @ [LoadFromMinioFailed table_name]\<rparr>)
      | (Inr u, w1) \<Rightarrow> load_after_truncate L E batch_size table_name w1)"

section \<open>services.py: the id-omitting load\<close>

definition select_columns :: "string list \<Rightarrow> dataframe \<Rightarrow> dataframe" where
  "select_columns cols df = map (\<lambda>r. map (\<lambda>c. (c, the (map_of r c))) cols) df"

definition to_timestamp_cell :: "sysenv \<Rightarrow> pyval \<Rightarrow> pyval" where
  "to_timestamp_cell E v = (case to_datetime E v of None \<Rightarrow> PNone | Some d \<Rightarrow> PTimestamp d)"

definition to_numeric_cell :: "sysenv \<Rightarrow> pyval \<Rightarrow> pyval" where
  "to_numeric_cell E v = (case to_numeric E v of None \<Rightarrow> PNone | Some i \<Rightarrow> PInt i)"

text \<open>
  The rows that \<open>_copy_hired_employees_no_id\<close> writes: dates and the two references are
  converted, rows that do not convert are dropped, and the four columns are selected.
\<close>

definition no_id_rows :: "sysenv \<Rightarrow> dataframe \<Rightarrow> dataframe" where
  "no_id_rows E df =
     (let df1 = dropna_subset [''datetime''] (map (set_cell ''datetime'' (to_timestamp_cell E)) df);
          df2 = map (set_cell ''job_id'' (to_numeric_cell E))
                  (map (set_cell ''department_id'' (to_numeric_cell E)) df1);
          df3 = dropna_subset [''department_id'', ''job_id''] df2
      in select_columns [''name'', ''datetime'', ''department_id'', ''job_id''] df3)"

text \<open>
  \<open>_copy_hired_employees_no_id\<close>: the rows are copied under the column list without \<open>id\<close>.
\<close>

definition copy_hired_employees_no_id ::
  "sysenv \<Rightarrow> dataframe \<Rightarrow> database \<Rightarrow> (string \<times> string list \<times> pydict list) list \<times> (exn + database)" where
  "copy_hired_employees_no_id E df d =
     (if \<not> has_columns df [''datetime'', ''name'', ''department_id'', ''job_id''] then ([], Inl KeyError)
      else
        let cols = [''name'', ''datetime'', ''department_id'', ''job_id''];
            rows = no_id_rows E df
        in ([(''hired_employees'', cols, rows)], copy_from E ''hired_employees'' cols rows d))"

text \<open>
  \<open>_load_with_copy_no_id\<close>. The \<open>ALTER TABLE\<close> that enables the identity is tried first and
  its failure is ignored; it changes no row. For \<open>departments\<close> the source calls a method
  that the class does not have, which raises \<open>AttributeError\<close>.
\<close>

definition load_with_copy_no_id :: "sysenv \<Rightarrow> dataframe \<Rightarrow> string \<Rightarrow> world \<Rightarrow> (exn + unit) \<times> world" where
  "load_with_copy_no_id E df table_name w =
     (if \<not> connect_ok E (db w) then (Inl DatabaseError, w\<lparr>log := log w @ [CopyNoIdFailed]\<rparr>)
      else
        let (calls, res) =
              (if table_name = ''hired_employees'' then copy_hired_employees_no_id E df (db w)
               else if table_name = ''departments'' then ([], Inl AttributeError)
               else ([], Inr (db w)));
            w1 = w\<lparr>copy_calls := copy_calls w @ calls\<rparr>
        in case res of
             Inl e \<Rightarrow> (Inl e, w1\<lparr>log := log w1 @ [CopyNoIdFailed]\<rparr>)
           | Inr pending \<Rightarrow>
               (if commit_ok E pending
                then (Inr (), w1\<lparr>db := pending, log := log w1 @ [CopyNoIdLoaded (length df) table_name]\<rparr>)
                else (Inl DatabaseError, w1\<lparr>log := log w1 @ [CopyNoIdFailed]\<rparr>)))"

section \<open>services.py: restore from a Parquet backup\<close>

text \<open>Strings of paths and object keys: comparison by code point, sorting, splitting.\<close>

fun str_le :: "string \<Rightarrow> string \<Rightarrow> bool" where
  "str_le [] ys = True"
| "str_le (x # xs) [] = False"
| "str_le (x # xs) (y # ys) =
     ((of_char x :: nat) < of_char y \<or> (x = y \<and> str_le xs ys))"

fun insert_sorted :: "string \<Rightarrow> string list \<Rightarrow> string list" where
  "insert_sorted x [] = [x]"
| "insert_sorted x (y # ys) = (if str_le x y then x # y # ys else y # insert_sorted x ys)"

definition sorted_strings :: "string list \<Rightarrow> string list" where
  "sorted_strings xs = foldr insert_sorted xs []"

text \<open>\<open>s.split(sep)\<close> for a one-character separator.\<close>

fun split_on :: "char \<Rightarrow> string \<Rightarrow> string list" where
  "split_on sep [] = [[]]"
| "split_on sep (c # cs) =
     (if c = sep then [] # split_on sep cs
      else (case split_on sep cs of
              [] \<Rightarrow> [[c]]
            | p # ps \<Rightarrow> (c # p) # ps))"

text \<open>\<open>s.rstrip('/')\<close>.\<close>

definition rstrip_slash :: "string \<Rightarrow> string" where
  "rstrip_slash s = rev (dropWhile (\<lambda>c. c = CHR ''/'') (rev s))"

text \<open>
  \<open>get_latest_backup_path\<close>: the greatest of the fifteen-character timestamp directories,
  \<open>None\<close> when there is none or when anything raises.
\<close>

definition timestamp_part :: "string \<Rightarrow> string option" where
  "timestamp_part path =
     (let parts = split_on CHR ''/'' path
      in if length parts < 2 then None else Some (parts ! (length parts - 2)))"

definition get_latest_backup_path :: "sysenv \<Rightarrow> string \<Rightarrow> world \<Rightarrow> string option \<times> world" where
  "get_latest_backup_path E table_name w =
     (case list_common_prefixes E (default_bucket E) (''backups/'' @ table_name @ ''/'') of
        Inl e \<Rightarrow> (None, w\<lparr>log := log w @ [NoBackupsFound table_name]\<rparr>)
      | Inr None \<Rightarrow> (None, w\<lparr>log := log w @ [NoBackupsFound table_name]\<rparr>)
      | Inr (Some prefixes) \<Rightarrow>
          (if list_ex (\<lambda>p. timestamp_part p = None) prefixes
           then (None, w\<lparr>log := log w @ [NoBackupsFound table_name]\<rparr>)
           else
             let stamps = filter (\<lambda>t. t \<noteq> [] \<and> length t = 15)
                            (map (\<lambda>p. the (timestamp_part p)) prefixes)
             in if stamps = [] then (None, w\<lparr>log := log w @ [NoBackupsFound table_name]\<rparr>)
                else (Some (''backups/'' @ table_name @ ''/'' @ last (sorted_strings stamps) @ ''/''), w)))"

text \<open>
  The loop of \<open>_restore_dataframe_to_postgres\<close> over the chunks, inside one transaction:
  \<open>d\<close> is the pending state, \<open>n\<close> the running total. The column list of \<open>hired_employees\<close>
  depends on whether the chunk has an \<open>id\<close> column with a value; the other tables are
  copied under the columns of the frame. Every column of the chunk is written.
\<close>

definition restore_columns :: "string \<Rightarrow> dataframe \<Rightarrow> string list" where
  "restore_columns table_name batch_df =
     (if table_name = ''hired_employees'' then
        (if list_ex (\<lambda>r. case map_of r ''id'' of None \<Rightarrow> False | Some v \<Rightarrow> \<not> isna v) batch_df
         then [''id'', ''name'', ''datetime'', ''department_id'', ''job_id'']
         else [''name'', ''datetime'', ''department_id'', ''job_id''])
      else (case batch_df of [] \<Rightarrow> [] | r # rs \<Rightarrow> map fst r))"

fun restore_chunks ::
  "sysenv \<Rightarrow> string \<Rightarrow> dataframe list \<Rightarrow> database \<Rightarrow> nat
     \<Rightarrow> (string \<times> string list \<times> pydict list) list \<times> (exn + database \<times> nat)" where
  "restore_chunks E table_name [] d n = ([], Inr (d, n))"
| "restore_chunks E table_name (batch_df # rest) d n =
     (if batch_df = [] then restore_chunks E table_name rest d n
      else
        let cols = restore_columns table_name batch_df
        in case copy_from E table_name cols batch_df d of
             Inl e \<Rightarrow> ([(table_name, cols, batch_df)], Inl e)
           | Inr d1 \<Rightarrow>
               (let (calls, res) = restore_chunks E table_name rest d1 (n + length batch_df)
                in ((table_name, cols, batch_df) # calls, res)))"

definition restore_dataframe_to_postgres ::
  "sysenv \<Rightarrow> dataframe \<Rightarrow> string \<Rightarrow> int \<Rightarrow> world \<Rightarrow> (exn + nat) \<times> world" where
  "restore_dataframe_to_postgres E df table_name chunk_size w =
     (if \<not> connect_ok E (db w) then (Inl DatabaseError, w\<lparr>log := log w @ [RestoreDataFrameFailed]\<rparr>)
      else
        (case range_chunks chunk_size df of
           Inl e \<Rightarrow> (Inl e, w\<lparr>log := log w @ [RestoreDataFrameFailed]\<rparr>)
         | Inr cs \<Rightarrow>
             (let (calls, res) = restore_chunks E table_name cs (db w) 0;
                  w1 = w\<lparr>copy_calls := copy_calls w @ calls\<rparr>
              in case res of
                   Inl e \<Rightarrow> (Inl e, w1\<lparr>log := log w1 @ [RestoreDataFrameFailed]\<rparr>)
                 | Inr (pending, n) \<Rightarrow>
                     (if commit_ok E pending then (Inr n, w1\<lparr>db := pending\<rparr>)
                      else (Inl DatabaseError, w1\<lparr>log := log w1 @ [RestoreDataFrameFailed]\<rparr>)))))"

text \<open>
  The loop over the sorted Parquet files: download, read, restore, add to the total. The
  first exception leaves the loop. The temporary file and its removal are not modelled.
\<close>

fun restore_files ::
  "sysenv \<Rightarrow> string \<Rightarrow> int \<Rightarrow> string \<Rightarrow> string list \<Rightarrow> nat \<Rightarrow> world \<Rightarrow> (exn + nat) \<times> world" where
  "restore_files E table_name chunk_size bucket [] total_restored w = (Inr total_restored, w)"
| "restore_files E table_name chunk_size bucket (parquet_file # rest) total_restored w =
     (case download_file E bucket parquet_file of
        Inl e \<Rightarrow> (Inl e, w)
      | Inr u \<Rightarrow>
          (case read_table E bucket parquet_file of
             Inl e \<Rightarrow> (Inl e, w)
           | Inr df \<Rightarrow>
               (if df = [] then
                  restore_files E table_name chunk_size bucket rest total_restored
                    (w\<lparr>log := log w @ [EmptyParquetFile parquet_file]\<rparr>)
                else
                  (case restore_dataframe_to_postgres E df table_name chunk_size w of
                     (Inl e, w1) \<Rightarrow> (Inl e, w1)
                   | (Inr restored_count, w1) \<Rightarrow>
                       restore_files E table_name chunk_size bucket rest
                         (total_restored + restored_count)
                         (w1\<lparr>log := log w1 @ [RestoredFile restored_count parquet_file]\<rparr>)))))"

text \<open>The bucket and the prefix that the listing uses, from \<open>backup_path\<close>.\<close>

definition backup_location :: "string \<Rightarrow> string \<Rightarrow> string \<times> string" where
  "backup_location bucket backup_path =
     (if take 5 backup_path = ''s3://'' then
        (let rest = drop 5 backup_path
         in if CHR ''/'' \<in> set rest
            then (takeWhile (\<lambda>c. c \<noteq> CHR ''/'') rest, tl (dropWhile (\<lambda>c. c \<noteq> CHR ''/'') rest))
            else (bucket, rest))
      else (bucket, rstrip_slash backup_path))"

text \<open>
  The statements of \<open>restore_table_from_parquet_in_minio\<close> after the truncation. The value
  returned is a Python value: the source returns \<open>True\<close> or \<open>False\<close>.
\<close>

definition restore_after_truncate ::
  "sysenv \<Rightarrow> string \<Rightarrow> string \<Rightarrow> int \<Rightarrow> world \<Rightarrow> pyval \<times> world" where
  "restore_after_truncate E table_name backup_path chunk_size w =
     (let (bucket, prefix) = backup_location (default_bucket E) backup_path
      in case list_objects E bucket prefix of
           Inl e \<Rightarrow> (PBool False, w\<lparr>log := log w @ [RestoreFailed table_name]\<rparr>)
         | Inr keys \<Rightarrow>
             (let parquet_files = filter (ends_with ''.parquet'') keys
              in if parquet_files = [] then (PBool False, w\<lparr>log := log w @ [NoParquetFiles backup_path]\<rparr>)
                 else
                   (case restore_files E table_name chunk_size bucket (sorted_strings parquet_files) 0 w of
                      (Inl e, w1) \<Rightarrow> (PBool False, w1\<lparr>log := log w1 @ [RestoreFailed table_name]\<rparr>)
                    | (Inr total_restored, w1) \<Rightarrow>
                        (PBool True, w1\<lparr>log := log w1 @ [RestoredTotal total_restored table_name]\<rparr>))))"

definition restore_table_from_parquet_in_minio ::
  "sysenv \<Rightarrow> string \<Rightarrow> string option \<Rightarrow> int \<Rightarrow> world \<Rightarrow> pyval \<times> world" where
  "restore_table_from_parquet_in_minio E table_name backup_path chunk_size w =
     (let (path, w0) = (case backup_path of
                          None \<Rightarrow> get_latest_backup_path E table_name w
                        | Some p \<Rightarrow> (Some p, w))
      in case path of
           None \<Rightarrow> (PBool False, w0\<lparr>log := log w0 @ [NoBackupsFound table_name]\<rparr>)
         | Some p \<Rightarrow>
             (case truncate_table_before_load E table_name w0 of
                (Inl e, w1) \<Rightarrow> (PBool False, w1\<lparr>log := log w1 @ [RestoreFailed table_name]\<rparr>)
              | (Inr u, w1) \<Rightarrow> restore_after_truncate E table_name p chunk_size w1))"

section \<open>validators.py: validate and log\<close>


section \<open>run\_kafka\_consumer.py: the streaming consumer\<close>

text \<open>
  The state of the consumer loop: the buffer of each table (\<open>defaultdict(list)\<close>) with its
  keys in the order of their first access, the time of
  the last flush of each table (\<open>None\<close> before the first access, which stores the clock
  reading), and the world. Clock readings are integers, in milliseconds.
\<close>

record consumer =
  buffers :: "string \<Rightarrow> pydict list"
  buffer_keys :: "string list"
  last_flush :: "string \<Rightarrow> int option"
  world :: world

text \<open>
  \<open>pd.DataFrame(items)\<close>: the columns are the keys of the items in order of first
  appearance; a key that an item lacks gives a \<open>NaN\<close> cell.
\<close>

definition frame_columns :: "pydict list \<Rightarrow> string list" where
  "frame_columns items = remdups (rev (remdups (rev (concat (map (map fst) items)))))"

definition frame_of :: "pydict list \<Rightarrow> dataframe" where
  "frame_of items =
     map (\<lambda>r. map (\<lambda>c. (c, (case map_of r c of None \<Rightarrow> PNone | Some v \<Rightarrow> v))) (frame_columns items)) items"

definition convert_if_present :: "string list \<Rightarrow> string \<Rightarrow> (pyval \<Rightarrow> pyval) \<Rightarrow> dataframe \<Rightarrow> dataframe" where
  "convert_if_present cols c f df = (if c \<in> set cols then map (set_cell c f) df else df)"

text \<open>
  The \<open>hired_employees\<close> branch of \<open>_flush\<close>: the rows with an id and the rows without are
  two loads, the second one only if the first did not raise.
\<close>

definition flush_with_id :: "sysenv \<Rightarrow> string list \<Rightarrow> dataframe \<Rightarrow> world \<Rightarrow> (exn + unit) \<times> world" where
  "flush_with_id E cols with_id w =
     (let tmp1 = (if ''datetime'' \<in> set cols
                  then dropna_subset [''datetime''] (map (set_cell ''datetime'' (to_timestamp_cell E)) with_id)
                  else with_id);
          tmp2 = convert_if_present cols ''job_id'' (to_numeric_cell E)
                   (convert_if_present cols ''department_id'' (to_numeric_cell E)
                      (convert_if_present cols ''id'' (to_numeric_cell E) tmp1))
      in if \<not> list_all (\<lambda>c. c \<in> set cols) [''id'', ''department_id'', ''job_id''] then (Inl KeyError, w)
         else
           let tmp3 = dropna_subset [''id'', ''department_id'', ''job_id''] tmp2
           in if \<not> list_all (\<lambda>c. c \<in> set cols) [''id'', ''name'', ''datetime'', ''department_id'', ''job_id'']
              then (Inl KeyError, w)
              else load_with_copy E
                     (select_columns [''id'', ''name'', ''datetime'', ''department_id'', ''job_id''] tmp3)
                     ''hired_employees'' w)"

definition flush_without_id :: "sysenv \<Rightarrow> string list \<Rightarrow> dataframe \<Rightarrow> world \<Rightarrow> (exn + unit) \<times> world" where
  "flush_without_id E cols without_id w =
     (if \<not> list_all (\<lambda>c. c \<in> set cols) [''name'', ''datetime'', ''department_id'', ''job_id'']
      then (Inl KeyError, w)
      else load_with_copy_no_id E
             (select_columns [''name'', ''datetime'', ''department_id'', ''job_id''] without_id)
             ''hired_employees'' w)"

definition flush_hired_employees :: "sysenv \<Rightarrow> pydict list \<Rightarrow> world \<Rightarrow> (exn + unit) \<times> world" where
  "flush_hired_employees E items w =
     (let df = frame_of items;
          cols = frame_columns items;
          with_id = (if ''id'' \<in> set cols then filter (\<lambda>r. \<not> isna (the (map_of r ''id''))) df else []);
          without_id = (if ''id'' \<in> set cols then filter (\<lambda>r. isna (the (map_of r ''id''))) df else df)
      in case (if with_id \<noteq> [] then flush_with_id E cols with_id w else (Inr (), w)) of
           (Inl e, w1) \<Rightarrow> (Inl e, w1)
         | (Inr u, w1) \<Rightarrow>
             (if without_id \<noteq> [] then flush_without_id E cols without_id w1 else (Inr (), w1)))"

text \<open>The \<open>departments\<close> and \<open>jobs\<close> branches of \<open>_flush\<close>.\<close>

definition flush_reference :: "sysenv \<Rightarrow> string \<Rightarrow> pydict list \<Rightarrow> world \<Rightarrow> (exn + unit) \<times> world" where
  "flush_reference E table items w =
     (let df = frame_of items;
          cols = frame_columns items
      in if ''id'' \<notin> set cols then (Inl KeyError, w)
         else
           let tmp = map (set_cell ''id'' (to_numeric_cell E)) df
           in if ''name'' \<notin> set cols then (Inl KeyError, w)
              else load_with_copy E (select_columns [''id'', ''name''] (dropna_subset [''id'', ''name''] tmp))
                     table w)"

text \<open>The loads of the \<open>try\<close> block of \<open>_flush\<close>, by table.\<close>

definition flush_load :: "sysenv \<Rightarrow> string \<Rightarrow> pydict list \<Rightarrow> world \<Rightarrow> (exn + unit) \<times> world" where
  "flush_load E table items w =
     (if table = ''hired_employees'' then flush_hired_employees E items w
      else if table = ''departments'' then flush_reference E table items w
      else if table = ''jobs'' then flush_reference E table items w
      else (Inr (), w))"

text \<open>
  \<open>_flush(table)\<close>, called when the clock reads \<open>clock\<close>. Both the normal end of the \<open>try\<close> block
  and the \<open>except\<close> clause clear the buffer and store the clock reading.
\<close>

definition flush :: "sysenv \<Rightarrow> int \<Rightarrow> string \<Rightarrow> consumer \<Rightarrow> consumer" where
  "flush E clock table cs =
     (let items = buffers cs table
      in if items = [] then cs
         else
           (case flush_load E table items (world cs) of
              (Inr u, w1) \<Rightarrow>
                cs\<lparr>buffers := (buffers cs)(table := []),
                   last_flush := (last_flush cs)(table := Some clock),
                   world := w1\<lparr>log := log w1 @ [Flushed (length items) table]\<rparr>\<rparr>
            | (Inl e, w1) \<Rightarrow>
                cs\<lparr>buffers := (buffers cs)(table := []),
                   last_flush := (last_flush cs)(table := Some clock),
                   world := w1\<lparr>log := log w1 @ [FlushFailed table]\<rparr>\<rparr>))"







section \<open>utils.py and services.py: staging a CSV file\<close>

text \<open>
  \<open>validate_csv_structure\<close>: every expected column must be among the columns of the file;
  a file without a header line has the expected columns by definition. Any exception gives
  \<open>False\<close>.
\<close>

definition validate_csv_structure :: "sysenv \<Rightarrow> string \<Rightarrow> string list \<Rightarrow> bool" where
  "validate_csv_structure E file_path expected_columns =
     (case open_first_line E file_path of
        Inl e \<Rightarrow> False
      | Inr line \<Rightarrow>
          (let first_line = py_strip line
           in if list_ex (\<lambda>col. contains (ustr_of col) first_line) expected_columns then
                (case read_csv_header E file_path of
                   Inl e \<Rightarrow> False
                 | Inr actual_columns \<Rightarrow> list_all (\<lambda>c. c \<in> set actual_columns) expected_columns)
              else True))"

definition load_csv_to_minio :: "sysenv \<Rightarrow> string \<Rightarrow> string \<Rightarrow> world \<Rightarrow> bool \<times> world" where
  "load_csv_to_minio E csv_path table_name w =
     (if \<not> validate_csv_structure E csv_path (get_expected_columns table_name)
      then (False, w\<lparr>log := log w @ [CsvStructureFailed csv_path]\<rparr>)
      else
        (case upload_file E csv_path (default_bucket E)
                (''raw_data/'' @ table_name @ ''/'' @ table_name @ ''.csv'') of
           Inl e \<Rightarrow> (False, w\<lparr>log := log w @ [UploadFailed csv_path]\<rparr>)
         | Inr u \<Rightarrow> (True, w)))"

section \<open>services.py: run\_full\_migration\<close>

datatype status = Success | Failed | FileNotFound

text \<open>The dictionary \<open>csv_files\<close> of \<open>run_full_migration\<close>, in the order it is written.\<close>

definition csv_files :: "(string \<times> string) list" where
  "csv_files =
     [(''hired_employees'', ''/app/data/hired_employees.csv''),
      (''departments'', ''/app/data/departments.csv''),
      (''jobs'', ''/app/data/jobs.csv'')]"

text \<open>
  The loop over the items of the dictionary: each table gets a status, whatever the
  status of the tables before it.
\<close>

fun migrate_all ::
  "pylib \<Rightarrow> sysenv \<Rightarrow> int \<Rightarrow> (string \<times> string) list \<Rightarrow> (string \<times> status) list \<Rightarrow> world
     \<Rightarrow> (string \<times> status) list \<times> world" where
  "migrate_all L E batch_size [] results w = (results, w)"
| "migrate_all L E batch_size ((table_name, csv_path) # rest) results w =
     (let w0 = w\<lparr>log := log w @ [MigrationStarted table_name]\<rparr>
      in if path_exists E csv_path then
           (case load_csv_to_minio E csv_path table_name w0 of
              (True, w1) \<Rightarrow>
                (case load_from_minio_to_postgres L E batch_size table_name w1 of
                   (success, w2) \<Rightarrow>
                     migrate_all L E batch_size rest
                       (results @ [(table_name, if success then Success else Failed)]) w2)
            | (False, w1) \<Rightarrow>
                migrate_all L E batch_size rest (results @ [(table_name, Failed)]) w1)
         else migrate_all L E batch_size rest (results @ [(table_name, FileNotFound)])
                (w0\<lparr>log := log w0 @ [CsvFileNotFound csv_path]\<rparr>))"

definition run_full_migration ::
  "pylib \<Rightarrow> sysenv \<Rightarrow> int \<Rightarrow> world \<Rightarrow> (string \<times> status) list \<times> world" where
  "run_full_migration L E batch_size w = migrate_all L E batch_size csv_files [] w"

section \<open>run\_migration\_truncate\_load.py: the step-by-step command\<close>

text \<open>What the command writes to its standard output, one constructor for each message.\<close>

datatype stdout_line =
    StepStarted string
  | StepFailed string
  | FileMissing string
  | UploadError string
  | TableMigrated string
  | TableNotLoaded string
  | MigrationCompleted

text \<open>\<open>_migrate_table_truncate_load\<close>: \<open>csv_files[table_name]\<close>, then the two stages.\<close>

definition migrate_table_truncate_load ::
  "pylib \<Rightarrow> sysenv \<Rightarrow> int \<Rightarrow> string \<Rightarrow> world \<Rightarrow> bool \<times> stdout_line list \<times> world" where
  "migrate_table_truncate_load L E batch_size table_name w =
     (case map_of csv_files table_name of
        None \<Rightarrow> (False, [TableNotLoaded table_name], w)
      | Some csv_path \<Rightarrow>
          (if \<not> path_exists E csv_path then (False, [FileMissing csv_path], w)
           else
             (case load_csv_to_minio E csv_path table_name w of
                (False, w1) \<Rightarrow> (False, [UploadError table_name], w1)
              | (True, w1) \<Rightarrow>
                  (case load_from_minio_to_postgres L E batch_size table_name w1 of
                     (True, w2) \<Rightarrow> (True, [TableMigrated table_name], w2)
                   | (False, w2) \<Rightarrow> (False, [TableNotLoaded table_name], w2)))))"

text \<open>
  \<open>Command.handle\<close>: the three steps in the order of the source, with a \<open>return\<close> after the
  first step that fails. The result is what the command wrote and the world it leaves.
\<close>

definition handle :: "pylib \<Rightarrow> sysenv \<Rightarrow> int \<Rightarrow> world \<Rightarrow> stdout_line list \<times> world" where
  "handle L E batch_size w =
     (case migrate_table_truncate_load L E batch_size ''departments'' w of
        (False, o1, w1) \<Rightarrow> (StepStarted ''departments'' # o1 @ [StepFailed ''departments''], w1)
      | (True, o1, w1) \<Rightarrow>
          (case migrate_table_truncate_load L E batch_size ''jobs'' w1 of
             (False, o2, w2) \<Rightarrow>
               (StepStarted ''departments'' # o1 @ StepStarted ''jobs'' # o2 @ [StepFailed ''jobs''], w2)
           | (True, o2, w2) \<Rightarrow>
               (case migrate_table_truncate_load L E batch_size ''hired_employees'' w2 of
                  (False, o3, w3) \<Rightarrow>
                    (StepStarted ''departments'' # o1 @ StepStarted ''jobs'' # o2
                       @ StepStarted ''hired_employees'' # o3 @ [StepFailed ''hired_employees''], w3)
                | (True, o3, w3) \<Rightarrow>
                    (StepStarted ''departments'' # o1 @ StepStarted ''jobs'' # o2
                       @ StepStarted ''hired_employees'' # o3 @ [MigrationCompleted], w3))))"

section \<open>The claims' own notions\<close>



text \<open>
  The instant of a well-formed \<open>hired_at\<close>: the value parsed under one of the three formats
  (or given as a datetime) and made aware; \<open>None\<close> when it is not well-formed.
\<close>

definition parsed_hired_at :: "pylib \<Rightarrow> pyval \<Rightarrow> int option" where
  "parsed_hired_at L v =
     (case v of
        PStr s \<Rightarrow>
          (case try_formats L s [Fmt_T, Fmt_T_frac, Fmt_space] of
             None \<Rightarrow> None
           | Some t \<Rightarrow> aware_instant L (Naive t))
      | PTimestamp d \<Rightarrow> aware_instant L d
      | PDatetime d \<Rightarrow> aware_instant L d
      | _ \<Rightarrow> None)"

text \<open>A value that is a positive integer and the id of a row of the table.\<close>

definition ref_exists :: "pylib \<Rightarrow> pydict list \<Rightarrow> pyval \<Rightarrow> bool" where
  "ref_exists L tbl v = (case py_int L v of None \<Rightarrow> False | Some i \<Rightarrow> 0 < i \<and> id_exists tbl i)"

text \<open>
  No explicit id, or one that is an integer from 1 to 2147483647 and not yet the id of an
  employee row.
\<close>

definition explicit_id_ok :: "pylib \<Rightarrow> database \<Rightarrow> pydict \<Rightarrow> bool" where
  "explicit_id_ok L d r =
     (case map_of r ''id'' of
        None \<Rightarrow> True
      | Some PNone \<Rightarrow> True
      | Some v \<Rightarrow>
          (case py_int L v of
             None \<Rightarrow> False
           | Some i \<Rightarrow> 1 \<le> i \<and> i \<le> 2147483647 \<and> \<not> id_exists (hired_employees d) i))"

text \<open>
  The name rule in the spec's words: letters of Unicode, spaces, hyphens and periods. Of the
  Unicode letters the definition lists those of the Basic Latin and Latin-1 Supplement
  blocks, which hold the accented Latin letters of the western European languages.
\<close>

definition latin1_letter :: "nat \<Rightarrow> bool" where
  "latin1_letter c =
     ((65 \<le> c \<and> c \<le> 90) \<or> (97 \<le> c \<and> c \<le> 122) \<or> c = 170 \<or> c = 181 \<or> c = 186
      \<or> (192 \<le> c \<and> c \<le> 214) \<or> (216 \<le> c \<and> c \<le> 246) \<or> (248 \<le> c \<and> c \<le> 255))"

definition spec_name_accepts :: "ustr \<Rightarrow> bool" where
  "spec_name_accepts s =
     (let n = py_strip s
      in 2 \<le> length n \<and> length n \<le> 255
         \<and> list_all (\<lambda>c. latin1_letter c \<or> c = 32 \<or> c = 45 \<or> c = 46) n)"

section \<open>A concrete environment\<close>

text \<open>
  The library at the values the examples need: \<open>int\<close> on plain decimal literals,
  \<open>strptime\<close> on two date strings (instants in UTC microseconds), the time zone UTC, and the
  clock at 2023-11-14 22:13:20 UTC.
\<close>

definition demo_int_of_str :: "ustr \<Rightarrow> int option" where
  "demo_int_of_str s =
     (if s \<noteq> [] \<and> list_all (\<lambda>c. 48 \<le> c \<and> c \<le> 57) s
      then Some (foldl (\<lambda>a c. 10 * a + int (c - 48)) 0 s) else None)"

definition demo_strptime :: "ustr \<Rightarrow> dt_format \<Rightarrow> int option" where
  "demo_strptime s f =
     (if f = Fmt_T \<and> s = ustr_of ''2023-01-05T10:00:00'' then Some 1672912800000000
      else if f = Fmt_T \<and> s = ustr_of ''2099-01-01T00:00:00'' then Some 4070908800000000
      else None)"

definition demo_lib :: pylib where
  "demo_lib = \<lparr> int_of_str = demo_int_of_str, strptime = demo_strptime, make_aware = Some,
                now = 1700000000000000, str_of_dt = (\<lambda>d. ustr_of ''2023-01-05 10:00:00'') \<rparr>"

definition demo_db :: database where
  "demo_db = \<lparr> departments = [[(''id'', PInt 1), (''name'', PStr (ustr_of ''Sales''))]],
               jobs = [[(''id'', PInt 2), (''name'', PStr (ustr_of ''Clerk''))]],
               hired_employees = [[(''id'', PInt 5), (''name'', PStr (ustr_of ''Luis Paz'')),
                                   (''datetime'', PTimestamp (Aware 1600000000000000)),
                                   (''department_id'', PInt 1), (''job_id'', PInt 2)]],
               hired_employees_seq = 6 \<rparr>"

definition ana :: pydict where
  "ana = [(''name'', PStr (ustr_of ''Ana Ruiz'')), (''datetime'', PStr (ustr_of ''2023-01-05T10:00:00'')),
          (''department_id'', PInt 1), (''job_id'', PInt 2)]"

definition ana5 :: pydict where
  "ana5 = (''id'', PInt 5) # ana"


text \<open>The name Mueller, written with u-diaeresis (code point 252), with whitespace around it.\<close>

definition mueller :: ustr where
  "mueller = [32, 77, 252, 108, 108, 101, 114, 10]"

text \<open>
  A store that accepts every statement and an object storage that holds nothing; the pandas
  converters on the values the examples need.
\<close>

definition demo_to_datetime :: "pyval \<Rightarrow> pydt option" where
  "demo_to_datetime v =
     (case v of
        PStr s \<Rightarrow> (if s = ustr_of ''2023-01-05T10:00:00'' then Some (Naive 1672912800000000) else None)
      | PTimestamp d \<Rightarrow> Some d
      | PDatetime d \<Rightarrow> Some d
      | _ \<Rightarrow> None)"

definition demo_to_numeric :: "pyval \<Rightarrow> int option" where
  "demo_to_numeric v = (case v of PInt i \<Rightarrow> Some i | PStr s \<Rightarrow> demo_int_of_str s | _ \<Rightarrow> None)"

definition demo_env :: sysenv where
  "demo_env =
     \<lparr> connect_ok = (\<lambda>d. True), copy_ok = (\<lambda>d t cols rows. True), commit_ok = (\<lambda>d. True),
       truncate_ok = (\<lambda>d t. True), foreign_keys = True, list_objects = (\<lambda>b p. Inr []),
       list_common_prefixes = (\<lambda>b p. Inr None), get_object = (\<lambda>b k. Inl StorageError),
       download_file = (\<lambda>b k. Inr ()), read_table = (\<lambda>b k. Inr []),
       read_csv = (\<lambda>c names. Inl ParserError), to_datetime = demo_to_datetime,
       to_numeric = demo_to_numeric, default_bucket = ''data-migration'',
       path_exists = (\<lambda>p. True), open_first_line = (\<lambda>p. Inl StorageError),
       read_csv_header = (\<lambda>p. Inl StorageError), upload_file = (\<lambda>p b k. Inl StorageError) \<rparr>"

definition empty_db :: database where
  "empty_db = \<lparr> departments = [], jobs = [], hired_employees = [], hired_employees_seq = 1 \<rparr>"

definition empty_world :: world where
  "empty_world = \<lparr> db = empty_db, copy_calls = [], log = [], migration_log = [] \<rparr>"


text \<open>The rows a table holds after an accepted \<open>COPY\<close> of a frame under the table's column list.\<close>

definition copy_columns :: "string \<Rightarrow> string list" where
  "copy_columns t =
     (if t = ''hired_employees'' then [''id'', ''name'', ''datetime'', ''department_id'', ''job_id'']
      else [''id'', ''name''])"

definition stored_rows :: "string \<Rightarrow> dataframe \<Rightarrow> pydict list" where
  "stored_rows t rows = map (\<lambda>r. zip (copy_columns t) (map snd r)) rows"

definition three_departments :: dataframe where
  "three_departments =
     [[(''id'', PInt 1), (''name'', PStr (ustr_of ''Sales''))],
      [(''id'', PInt 2), (''name'', PStr (ustr_of ''Legal''))],
      [(''id'', PInt 3), (''name'', PStr (ustr_of ''Audit''))]]"

text \<open>A store that refuses every \<open>COPY\<close> that carries the id 3.\<close>

definition refusing_env :: sysenv where
  "refusing_env =
     demo_env\<lparr>copy_ok := (\<lambda>d t cols rows. \<not> list_ex (\<lambda>r. map_of r ''id'' = Some (PInt 3)) rows)\<rparr>"



text \<open>A consumer with one department record in its buffer.\<close>

definition one_department :: consumer where
  "one_department =
     \<lparr> buffers = (\<lambda>t. if t = ''departments'' then [[(''id'', PInt 3), (''name'', PStr (ustr_of ''Audit''))]] else []),
       buffer_keys = [''departments''], last_flush = (\<lambda>t. None), world = empty_world \<rparr>"

text \<open>The tables of the \<open>Step\<close> lines that the command wrote, in order.\<close>

fun started :: "stdout_line list \<Rightarrow> string list" where
  "started [] = []"
| "started (StepStarted t # rest) = t # started rest"
| "started (x # rest) = started rest"

text \<open>The number of rows of the Parquet files of a snapshot, as the reader returns them.\<close>

definition partition_rows :: "sysenv \<Rightarrow> string \<Rightarrow> string list \<Rightarrow> nat" where
  "partition_rows E bucket files =
     sum_list (map (\<lambda>f. case read_table E bucket f of Inl e \<Rightarrow> 0 | Inr df \<Rightarrow> length df) files)"

text \<open>
  An object storage with one backup of \<open>departments\<close>: one partition of three rows; and one
  whose second partition cannot be read.
\<close>

definition backup_key :: string where
  "backup_key = ''backups/departments/20251007T123456/part-0000.parquet''"

definition backup_env :: sysenv where
  "backup_env =
     demo_env\<lparr>list_objects := (\<lambda>b p. if p = ''backups/departments/20251007T123456''
                                      then Inr [backup_key] else Inr []),
              read_table := (\<lambda>b k. if k = backup_key then Inr three_departments else Inl StorageError)\<rparr>"

definition backup_path :: string where
  "backup_path = ''backups/departments/20251007T123456/''"

definition backup_prefix :: string where
  "backup_prefix = ''backups/departments/20251007T123456''"

definition two_part_env :: sysenv where
  "two_part_env =
     demo_env\<lparr>list_objects := (\<lambda>b p. if p = backup_prefix
                                      then Inr [backup_key, ''backups/departments/20251007T123456/part-0001.parquet'']
                                      else Inr []),
              read_table := (\<lambda>b k. if k = backup_key then Inr three_departments else Inl StorageError)\<rparr>"















section \<open>Properties of the validators\<close>








lemma name_char_newline: "name_char 10"
  by (simp add: name_char_def py_isspace_def)

lemma takeWhile_all_len: "length (takeWhile P s) = length s \<longleftrightarrow> list_all P s"
  by (induction s) (auto simp: list_all_iff)

lemma re_match_name_iff: "re_match_name s \<longleftrightarrow> s \<noteq> [] \<and> list_all name_char s"
proof
  assume "re_match_name s"
  then obtain k where k: "1 \<le> k" "k \<le> length (takeWhile name_char s)" "at_dollar s k"
    by (auto simp: re_match_name_def)
  have le: "length (takeWhile name_char s) \<le> length s" by (rule length_takeWhile_le)
  from k(3) show "s \<noteq> [] \<and> list_all name_char s"
    unfolding at_dollar_def
  proof
    assume "k = length s"
    with k le have "length (takeWhile name_char s) = length s" by simp
    with k \<open>k = length s\<close> show ?thesis by (auto simp: takeWhile_all_len)
  next
    assume a: "Suc k = length s \<and> s ! k = 10"
    have pre: "\<forall>i<k. name_char (s ! i)"
    proof (intro allI impI)
      fix i assume "i < k"
      with k have i: "i < length (takeWhile name_char s)" by simp
      then have "takeWhile name_char s ! i = s ! i" by (rule takeWhile_nth)
      moreover have "name_char (takeWhile name_char s ! i)"
        using i by (meson nth_mem set_takeWhileD)
      ultimately show "name_char (s ! i)" by simp
    qed
    have "\<forall>i<length s. name_char (s ! i)"
    proof (intro allI impI)
      fix i assume "i < length s"
      with a have "i < k \<or> i = k" by auto
      then show "name_char (s ! i)" using pre a name_char_newline by auto
    qed
    then show ?thesis using a by (auto simp: list_all_length)
  qed
next
  assume a: "s \<noteq> [] \<and> list_all name_char s"
  then have "length (takeWhile name_char s) = length s" by (simp add: takeWhile_all_len)
  moreover from a have "1 \<le> length s" by (cases s) auto
  ultimately show "re_match_name s"
    by (auto simp: re_match_name_def at_dollar_def intro!: bexI[of _ "length s"])
qed

lemma name_errors_empty_iff:
  "name_errors n = [] \<longleftrightarrow> 2 \<le> length n \<and> length n \<le> 255 \<and> list_all name_char n"
  by (auto simp: name_errors_def re_match_name_iff)

text \<open>
  C6, as amended. The name rule of the validators accepts a name exactly when its trimmed
  length is between 2 and 255 and every character of the trimmed name is an ASCII letter,
  one of the twelve accented letters of the pattern, a whitespace character, a hyphen or a
  period.
\<close>

theorem name_rule_accepts_iff:
  "name_errors (py_strip s) = [] \<longleftrightarrow>
     2 \<le> length (py_strip s) \<and> length (py_strip s) \<le> 255 \<and>
     (\<forall>c \<in> set (py_strip s).
        (97 \<le> c \<and> c \<le> 122) \<or> (65 \<le> c \<and> c \<le> 90)
        \<or> c \<in> {225, 233, 237, 243, 250, 193, 201, 205, 211, 218, 241, 209}
        \<or> py_isspace c \<or> c = 45 \<or> c = 46)"
  unfolding name_errors_empty_iff list_all_iff name_char_def by simp

lemma mueller_strip: "py_strip mueller = [77, 252, 108, 108, 101, 114]"
  by (simp add: mueller_def py_strip_def py_isspace_def)

theorem name_rule_accepts_iff_witness:
  "name_errors (py_strip mueller) \<noteq> [] \<and> 252 \<in> set (py_strip mueller) \<and> \<not> py_isspace 252"
  using name_rule_accepts_iff[of mueller]
  by (simp add: mueller_strip py_isspace_def)

text \<open>
  C6 as stated fails: the name Mueller written with u-diaeresis consists of letters of Unicode only and has six characters, so
  the rule of the claim accepts it, and the validator's rule rejects it.
\<close>

theorem name_rule_unicode_counterexample:
  "spec_name_accepts mueller \<and> name_errors (py_strip mueller) = [NameInvalidChars]"
  by (simp add: spec_name_accepts_def mueller_strip latin1_letter_def name_errors_def
      re_match_name_def name_char_def at_dollar_def py_isspace_def)

lemma dept_errors_empty: "dept_errors L d v = [] \<longleftrightarrow> ref_exists L (departments d) v"
  by (auto simp: dept_errors_def ref_exists_def split: option.splits)

lemma job_errors_empty: "job_errors L d v = [] \<longleftrightarrow> ref_exists L (jobs d) v"
  by (auto simp: job_errors_def ref_exists_def split: option.splits)

lemma emp_id_errors_empty: "emp_id_errors L d r = [] \<longleftrightarrow> explicit_id_ok L d r"
  by (auto simp: emp_id_errors_def explicit_id_ok_def split: option.splits pyval.splits)

lemma check_datetime_parsed:
  assumes "parsed_hired_at L v = Some t"
  shows "check_datetime L v errs = Inr (errs @ (if t > now L then [DateFuture] else []))"
  using assms
  by (auto simp: parsed_hired_at_def check_datetime_def date_tail_def
      split: pyval.splits option.splits)

lemma finish_True: "finish errs = (True, None, None) \<longleftrightarrow> errs = []"
  by (simp add: finish_def)

text \<open>
  C2, as amended. For an employee record whose required fields are present and whose name
  and \<open>hired_at\<close> are well-formed, validation succeeds exactly when \<open>department_id\<close> and
  \<open>job_id\<close> are positive integers that reference existing rows, the parsed \<open>hired_at\<close>, as an
  instant, is not later than the current time, and an explicit id, if there is one, is an
  integer from 1 to 2147483647 that no employee row has yet.
\<close>

theorem validate_hired_employee_success_iff:
  assumes present: "missing_errors L r [''name'', ''datetime'', ''department_id'', ''job_id''] = []"
      and name_ok: "name_errors (py_strip (py_str L (the (map_of r ''name'')))) = []"
      and date_ok: "parsed_hired_at L (the (map_of r ''datetime'')) = Some t"
  shows "validate_hired_employee L d r = (True, None, None) \<longleftrightarrow>
           ref_exists L (departments d) (the (map_of r ''department_id''))
           \<and> ref_exists L (jobs d) (the (map_of r ''job_id''))
           \<and> t \<le> now L
           \<and> explicit_id_ok L d r"
proof -
  have "validate_hired_employee L d r =
          finish ((if t > now L then [DateFuture] else [])
                  @ dept_errors L d (the (map_of r ''department_id''))
                  @ job_errors L d (the (map_of r ''job_id''))
                  @ emp_id_errors L d r)"
    unfolding validate_hired_employee_def Let_def
    by (simp add: present name_ok check_datetime_parsed[OF date_ok])
  then show ?thesis
    by (auto simp: finish_True dept_errors_empty job_errors_empty emp_id_errors_empty)
qed

lemmas demo_defs = demo_lib_def demo_db_def demo_strptime_def demo_int_of_str_def ustr_of_def

lemma ana_present:
  "missing_errors demo_lib ana [''name'', ''datetime'', ''department_id'', ''job_id''] = []"
  by (simp add: missing_errors_def field_missing_def ana_def py_strip_def py_isspace_def
      ustr_of_def str_of_int_def dec_digits.simps)

lemma ana_name: "name_errors (py_strip (py_str demo_lib (the (map_of ana ''name'')))) = []"
  by (simp add: ana_def ustr_of_def py_strip_def py_isspace_def name_errors_def
      re_match_name_def name_char_def at_dollar_def)

lemma ana_date: "parsed_hired_at demo_lib (the (map_of ana ''datetime'')) = Some 1672912800000000"
  by (simp add: ana_def parsed_hired_at_def aware_instant_def demo_defs)

theorem validate_hired_employee_success_iff_witness:
  "missing_errors demo_lib ana [''name'', ''datetime'', ''department_id'', ''job_id''] = []
   \<and> name_errors (py_strip (py_str demo_lib (the (map_of ana ''name'')))) = []
   \<and> parsed_hired_at demo_lib (the (map_of ana ''datetime'')) = Some 1672912800000000
   \<and> validate_hired_employee demo_lib demo_db ana = (True, None, None)"
  using validate_hired_employee_success_iff[OF ana_present ana_name ana_date, of demo_db]
    ana_present ana_name ana_date
  by (simp add: ref_exists_def explicit_id_ok_def id_exists_def ana_def demo_defs)

text \<open>
  C2 as stated fails: the record below has its required fields, a well-formed name and
  date, existing department and job and a date in the past, and is rejected because its
  explicit id 5 is already the id of an employee row.
\<close>

theorem validate_hired_employee_id_counterexample:
  "missing_errors demo_lib ana5 [''name'', ''datetime'', ''department_id'', ''job_id''] = []
   \<and> name_errors (py_strip (py_str demo_lib (the (map_of ana5 ''name'')))) = []
   \<and> parsed_hired_at demo_lib (the (map_of ana5 ''datetime'')) = Some 1672912800000000
   \<and> ref_exists demo_lib (departments demo_db) (the (map_of ana5 ''department_id''))
   \<and> ref_exists demo_lib (jobs demo_db) (the (map_of ana5 ''job_id''))
   \<and> 1672912800000000 \<le> now demo_lib
   \<and> validate_hired_employee demo_lib demo_db ana5
       = (False, Some [IdExists 5], Some VALIDATION_ERROR)"
  unfolding validate_hired_employee_def Let_def
  by (simp add: ana5_def ana_def missing_errors_def field_missing_def py_strip_def py_isspace_def
      ustr_of_def str_of_int_def dec_digits.simps name_errors_def re_match_name_def name_char_def
      at_dollar_def check_datetime_def date_tail_def aware_instant_def demo_lib_def demo_db_def
      demo_strptime_def dept_errors_def job_errors_def emp_id_errors_def id_exists_def
      finish_def parsed_hired_at_def ref_exists_def)

section \<open>Properties of the batch loader\<close>

lemma chunks_from_step:
  "0 < B \<Longrightarrow> i < length xs \<Longrightarrow>
     chunks_from B i xs = take B (drop i xs) # chunks_from B (i + B) xs"
  by (simp add: chunks_from.simps[of B i xs])

lemma chunks_from_done: "length xs \<le> i \<Longrightarrow> chunks_from B i xs = []"
  by (simp add: chunks_from.simps[of B i xs])

lemma ceil_div_step:
  fixes n B :: nat
  assumes "0 < B" "0 < n"
  shows "(n + B - 1) div B = Suc ((n - B + B - 1) div B)"
proof (cases "n \<le> B")
  case True
  with assms have "(n + B - 1) div B = 1" by (intro div_nat_eqI) auto
  moreover from True assms have "(n - B + B - 1) div B = 0" by simp
  ultimately show ?thesis by simp
next
  case False
  then have "n + B - 1 = (n - B + B - 1) + B" by simp
  then have "(n + B - 1) div B = ((n - B + B - 1) + B) div B" by (rule arg_cong)
  also have "\<dots> = (n - B + B - 1) div B + 1"
    using assms(1) by (intro div_add_self2) simp
  finally show ?thesis by simp
qed

lemma chunks_from_length:
  "0 < B \<Longrightarrow> length (chunks_from B i xs) = (length xs - i + B - 1) div B"
proof (induction B i xs rule: chunks_from.induct)
  case (1 B i xs)
  show ?case
  proof (cases "length xs \<le> i")
    case True
    with 1(2) show ?thesis by (simp add: chunks_from_done)
  next
    case False
    with 1 have IH: "length (chunks_from B (i + B) xs) = (length xs - (i + B) + B - 1) div B"
      by simp
    from False have pos: "0 < length xs - i" by simp
    have eq: "length xs - (i + B) = length xs - i - B" by simp
    from False 1(2) have "length (chunks_from B i xs) = Suc (length (chunks_from B (i + B) xs))"
      by (simp add: chunks_from_step)
    also have "\<dots> = Suc ((length xs - i - B + B - 1) div B)"
      by (simp only: IH eq)
    also have "\<dots> = (length xs - i + B - 1) div B"
      using ceil_div_step[OF 1(2) pos] by simp
    finally show ?thesis .
  qed
qed

lemma chunks_from_concat:
  "0 < B \<Longrightarrow> concat (chunks_from B i xs) = drop i xs"
proof (induction B i xs rule: chunks_from.induct)
  case (1 B i xs)
  show ?case
  proof (cases "length xs \<le> i")
    case True
    with 1(2) show ?thesis by (simp add: chunks_from_done)
  next
    case False
    with 1 have IH: "concat (chunks_from B (i + B) xs) = drop (i + B) xs" by simp
    have "take B (drop i xs) @ drop (i + B) xs = drop i xs"
      by (metis append_take_drop_id drop_drop add.commute)
    with False 1(2) IH show ?thesis by (simp add: chunks_from_step)
  qed
qed

lemma load_with_copy_ok:
  assumes "load_with_copy E c t w = (Inr u, w1)" "known_table t"
  shows "table_rows (db w1) t = table_rows (db w) t @ stored_rows t c
         \<and> log w1 = log w @ [CopyLoaded (length c) t]"
  using assms
  by (auto simp: load_with_copy_def known_table_def copy_hired_employees_def copy_departments_def
      copy_jobs_def copy_from_def pg_insert_def table_rows_def stored_rows_def copy_columns_def
      Let_def split: if_splits sum.splits)

lemma load_with_copy_fail:
  assumes "load_with_copy E c t w = (Inl e, w1)"
  shows "db w1 = db w \<and> log w1 = log w @ [CopyFailed]"
  using assms
  by (auto simp: load_with_copy_def Let_def split: if_splits sum.splits prod.splits)

lemma load_chunks_ok:
  assumes "load_chunks E t cs w = (Inr u, w')" "known_table t"
  shows "table_rows (db w') t = table_rows (db w) t @ stored_rows t (concat cs)
         \<and> log w' = log w @ map (\<lambda>c. CopyLoaded (length c) t) cs"
  using assms
proof (induction cs arbitrary: w)
  case Nil
  then show ?case by (simp add: stored_rows_def)
next
  case (Cons c cs)
  from Cons.prems(1) obtain w1 where
    s1: "load_with_copy E c t w = (Inr (), w1)" and s2: "load_chunks E t cs w1 = (Inr u, w')"
    by (auto split: prod.splits sum.splits)
  from load_with_copy_ok[OF s1 Cons.prems(2)] Cons.IH[OF s2 Cons.prems(2)]
  show ?case by (simp add: stored_rows_def)
qed

lemma load_chunks_fail:
  assumes "load_chunks E t cs w = (Inl e, w')" "known_table t"
  shows "\<exists>cs1 c cs2. cs = cs1 @ c # cs2
           \<and> table_rows (db w') t = table_rows (db w) t @ stored_rows t (concat cs1)
           \<and> log w' = log w @ map (\<lambda>c. CopyLoaded (length c) t) cs1 @ [CopyFailed]"
  using assms
proof (induction cs arbitrary: w)
  case Nil
  then show ?case by simp
next
  case (Cons c cs)
  show ?case
  proof (cases "load_with_copy E c t w")
    case (Pair r w1)
    show ?thesis
    proof (cases r)
      case (Inl e1)
      with Pair Cons.prems(1) have "w' = w1" by simp
      with load_with_copy_fail[of E c t w e1 w1] Pair Inl
      have "table_rows (db w') t = table_rows (db w) t @ stored_rows t (concat [])
            \<and> log w' = log w @ map (\<lambda>c. CopyLoaded (length c) t) [] @ [CopyFailed]"
        by (simp add: stored_rows_def)
      then show ?thesis by (intro exI[of _ "[]"] exI[of _ c] exI[of _ cs]) simp
    next
      case (Inr u1)
      with Pair Cons.prems(1) have s2: "load_chunks E t cs w1 = (Inl e, w')" by simp
      from Pair Inr have s1: "load_with_copy E c t w = (Inr u1, w1)" by simp
      from Cons.IH[OF s2 Cons.prems(2)] obtain cs1 c' cs2 where
        h: "cs = cs1 @ c' # cs2"
           "table_rows (db w') t = table_rows (db w1) t @ stored_rows t (concat cs1)"
           "log w' = log w1 @ map (\<lambda>c. CopyLoaded (length c) t) cs1 @ [CopyFailed]"
        by blast
      from load_with_copy_ok[OF s1 Cons.prems(2)] h
      have "c # cs = (c # cs1) @ c' # cs2
            \<and> table_rows (db w') t = table_rows (db w) t @ stored_rows t (concat (c # cs1))
            \<and> log w' = log w @ map (\<lambda>c. CopyLoaded (length c) t) (c # cs1) @ [CopyFailed]"
        by (simp add: stored_rows_def)
      then show ?thesis by blast
    qed
  qed
qed

text \<open>
  C4. With a positive batch size \<open>B\<close> the loader cuts a frame of \<open>N\<close> rows into
  \<open>(N + B - 1) div B\<close> chunks that together are the frame. When it returns, it has made one
  successful chunk load for every chunk and the table holds the rows of the whole frame.
  When it raises, the chunks are \<open>cs1 @ c # cs2\<close> where the loads of \<open>cs1\<close> succeeded, each
  committed by its own transaction, and the load of \<open>c\<close> failed: the table holds the rows
  of \<open>cs1\<close> and nothing of \<open>c\<close> or \<open>cs2\<close>, and no load was tried after the failed one.
\<close>

theorem load_with_copy_batches_chunking:
  assumes "0 < B" "known_table t"
  shows "length (chunks_from (nat B) 0 df) = (length df + nat B - 1) div nat B
       \<and> concat (chunks_from (nat B) 0 df) = df
       \<and> (\<forall>w'. load_with_copy_batches E B df t w = (Inr (), w') \<longrightarrow>
             table_rows (db w') t = table_rows (db w) t @ stored_rows t df
             \<and> log w' = log w @ map (\<lambda>c. CopyLoaded (length c) t) (chunks_from (nat B) 0 df))
       \<and> (\<forall>e w'. load_with_copy_batches E B df t w = (Inl e, w') \<longrightarrow>
             (\<exists>cs1 c cs2. chunks_from (nat B) 0 df = cs1 @ c # cs2
                \<and> table_rows (db w') t = table_rows (db w) t @ stored_rows t (concat cs1)
                \<and> log w' = log w @ map (\<lambda>c. CopyLoaded (length c) t) cs1
                                 @ [CopyFailed, BatchesFailed t]))"
proof -
  let ?cs = "chunks_from (nat B) 0 df"
  from assms(1) have B: "0 < nat B" by simp
  have rc: "range_chunks B df = Inr ?cs" using assms(1) by (simp add: range_chunks_def)
  have a: "length ?cs = (length df + nat B - 1) div nat B"
    using chunks_from_length[OF B, of 0 df] by simp
  have b: "concat ?cs = df" using chunks_from_concat[OF B, of 0 df] by simp
  have c: "table_rows (db w') t = table_rows (db w) t @ stored_rows t df
           \<and> log w' = log w @ map (\<lambda>c. CopyLoaded (length c) t) ?cs"
    if "load_with_copy_batches E B df t w = (Inr (), w')" for w'
  proof -
    from that rc have "load_chunks E t ?cs w = (Inr (), w')"
      by (auto simp: load_with_copy_batches_def split: prod.splits sum.splits)
    from load_chunks_ok[OF this assms(2)] b show ?thesis by simp
  qed
  have d: "\<exists>cs1 c cs2. ?cs = cs1 @ c # cs2
             \<and> table_rows (db w') t = table_rows (db w) t @ stored_rows t (concat cs1)
             \<and> log w' = log w @ map (\<lambda>c. CopyLoaded (length c) t) cs1 @ [CopyFailed, BatchesFailed t]"
    if "load_with_copy_batches E B df t w = (Inl e, w')" for e w'
  proof -
    from that rc obtain w1 where
      l: "load_chunks E t ?cs w = (Inl e, w1)" and w': "w' = w1\<lparr>log := log w1 @ [BatchesFailed t]\<rparr>"
      by (auto simp: load_with_copy_batches_def split: prod.splits sum.splits)
    from load_chunks_fail[OF l assms(2)] obtain cs1 c cs2 where
      "?cs = cs1 @ c # cs2"
      "table_rows (db w1) t = table_rows (db w) t @ stored_rows t (concat cs1)"
      "log w1 = log w @ map (\<lambda>c. CopyLoaded (length c) t) cs1 @ [CopyFailed]"
      by blast
    with w' show ?thesis by (intro exI[of _ cs1] exI[of _ c] exI[of _ cs2]) simp
  qed
  from a b c d show ?thesis by blast
qed

lemmas env_defs = demo_env_def refusing_env_def empty_world_def empty_db_def

lemma three_chunks: "chunks_from (nat 2) 0 three_departments
    = [take 2 three_departments, drop 2 three_departments]"
  by (simp add: three_departments_def chunks_from_step chunks_from_done)

lemma demo_load_ok:
  "load_with_copy_batches demo_env 2 three_departments ''departments'' empty_world
     = (Inr (), empty_world\<lparr>db := empty_db\<lparr>departments := three_departments\<rparr>,
          copy_calls := [(''departments'', [''id'', ''name''], take 2 three_departments),
                         (''departments'', [''id'', ''name''], drop 2 three_departments)],
          log := [CopyLoaded 2 ''departments'', CopyLoaded 1 ''departments'']\<rparr>)"
  unfolding load_with_copy_batches_def range_chunks_def
  apply (simp only: three_chunks)
  apply (simp add: load_with_copy_def copy_departments_def copy_from_def known_table_def
      has_columns_def pg_insert_def env_defs three_departments_def Let_def)
  done

lemma refusing_load_fails:
  "load_with_copy_batches refusing_env 2 three_departments ''departments'' empty_world
     = (Inl DatabaseError, empty_world\<lparr>db := empty_db\<lparr>departments := take 2 three_departments\<rparr>,
          copy_calls := [(''departments'', [''id'', ''name''], take 2 three_departments),
                         (''departments'', [''id'', ''name''], drop 2 three_departments)],
          log := [CopyLoaded 2 ''departments'', CopyFailed, BatchesFailed ''departments'']\<rparr>)"
  unfolding load_with_copy_batches_def range_chunks_def
  apply (simp only: three_chunks)
  apply (simp add: load_with_copy_def copy_departments_def copy_from_def known_table_def
      has_columns_def pg_insert_def env_defs three_departments_def Let_def)
  done

theorem load_with_copy_batches_chunking_witness:
  "(0::int) < 2 \<and> known_table ''departments''
   \<and> length (chunks_from (nat 2) 0 three_departments) = 2
   \<and> fst (load_with_copy_batches demo_env 2 three_departments ''departments'' empty_world) = Inr ()
   \<and> table_rows (db (snd (load_with_copy_batches demo_env 2 three_departments ''departments'' empty_world)))
        ''departments'' = three_departments
   \<and> fst (load_with_copy_batches refusing_env 2 three_departments ''departments'' empty_world)
        = Inl DatabaseError
   \<and> table_rows (db (snd (load_with_copy_batches refusing_env 2 three_departments ''departments''
        empty_world))) ''departments'' = take 2 three_departments"
proof -
  have h1: "(0::int) < 2" by simp
  have h2: "known_table ''departments''" by (simp add: known_table_def)
  from load_with_copy_batches_chunking[OF h1 h2, of three_departments demo_env empty_world]
  have "length (chunks_from (nat 2) 0 three_departments) = (length three_departments + nat 2 - 1) div nat 2"
    by blast
  then have "length (chunks_from (nat 2) 0 three_departments) = 2"
    by (simp add: three_departments_def)
  with h1 h2 show ?thesis
    by (simp add: demo_load_ok refusing_load_fails table_rows_def)
qed

section \<open>Properties of the truncation\<close>

lemma truncate_never_raises: "fst (truncate_table_before_load E t w) = Inr ()"
  by (simp add: truncate_table_before_load_def Let_def split: sum.splits)






section \<open>Properties of the consumer's flush\<close>

lemma flush_empty: "buffers cs t = [] \<Longrightarrow> flush E clock t cs = cs"
  by (simp add: flush_def)

text \<open>
  C10. After \<open>_flush\<close> the buffer of the flushed table is empty, whether the load returned or
  raised. When the load raised, the consumer only adds the error record to the log: the
  records are gone from the buffer, and a flush of the same table right after it finds an
  empty buffer and does nothing, so the failed batch is not loaded again.
\<close>

theorem flush_clears_buffer:
  "buffers (flush E clock t cs) t = []
   \<and> flush E clock' t (flush E clock t cs) = flush E clock t cs
   \<and> (\<forall>e w1. buffers cs t \<noteq> [] \<longrightarrow> flush_load E t (buffers cs t) (world cs) = (Inl e, w1) \<longrightarrow>
         world (flush E clock t cs) = w1\<lparr>log := log w1 @ [FlushFailed t]\<rparr>)"
proof -
  have a: "buffers (flush E clock t cs) t = []"
    by (auto simp: flush_def Let_def split: prod.splits sum.splits)
  have c: "world (flush E clock t cs) = w1\<lparr>log := log w1 @ [FlushFailed t]\<rparr>"
    if "buffers cs t \<noteq> []" "flush_load E t (buffers cs t) (world cs) = (Inl e, w1)" for e w1
    using that by (simp add: flush_def Let_def)
  from a c flush_empty[OF a] show ?thesis by simp
qed

lemma one_department_load:
  "flush_load refusing_env ''departments'' (buffers one_department ''departments'') (world one_department)
     = (Inl DatabaseError,
        empty_world\<lparr>copy_calls := [(''departments'', [''id'', ''name''],
                                      [[(''id'', PInt 3), (''name'', PStr (ustr_of ''Audit''))]])],
                     log := [CopyFailed]\<rparr>)"
  by (simp add: flush_load_def flush_reference_def one_department_def frame_of_def frame_columns_def
      set_cell_def to_numeric_cell_def dropna_subset_def isna_def select_columns_def
      load_with_copy_def copy_departments_def has_columns_def copy_from_def known_table_def
      refusing_env_def demo_env_def demo_to_numeric_def empty_world_def empty_db_def Let_def)

theorem flush_clears_buffer_witness:
  "buffers one_department ''departments'' \<noteq> []
   \<and> buffers (flush refusing_env 0 ''departments'' one_department) ''departments'' = []
   \<and> db (world (flush refusing_env 0 ''departments'' one_department)) = empty_db
   \<and> log (world (flush refusing_env 0 ''departments'' one_department))
       = [CopyFailed, FlushFailed ''departments'']"
proof -
  have ne: "buffers one_department ''departments'' \<noteq> []" by (simp add: one_department_def)
  from flush_clears_buffer[of refusing_env 0 "''departments''" one_department 0]
    ne one_department_load
  have "buffers (flush refusing_env 0 ''departments'' one_department) ''departments'' = []"
    and "world (flush refusing_env 0 ''departments'' one_department)
          = (empty_world\<lparr>copy_calls := [(''departments'', [''id'', ''name''],
                                      [[(''id'', PInt 3), (''name'', PStr (ustr_of ''Audit''))]])],
                     log := [CopyFailed]\<rparr>)\<lparr>log := [CopyFailed] @ [FlushFailed ''departments'']\<rparr>"
    by auto
  with ne show ?thesis by (simp add: empty_world_def)
qed

section \<open>Properties of the orchestration\<close>

lemma started_append: "started (xs @ ys) = started xs @ started ys"
  by (induction xs rule: started.induct) auto

lemma migrate_table_no_start:
  "migrate_table_truncate_load L E bs t w = (ok, out, w') \<Longrightarrow> started out = []"
  by (auto simp: migrate_table_truncate_load_def split: option.splits if_splits prod.splits bool.splits)

lemma migrate_all_keys:
  "map fst (fst (migrate_all L E bs files res w)) = map fst res @ map fst files"
  by (induction L E bs files res w rule: migrate_all.induct)
     (auto simp: Let_def split: prod.splits bool.splits)

text \<open>
  C3, as amended. The step-by-step command starts the tables in the order departments,
  jobs, employees and returns after the first table whose migration fails: the tables
  after it are not started and the world is the one the failed step left. It reports
  completion exactly when all three steps succeeded. The \<open>run_full_migration\<close> of the service
  gives each of the three tables a status.
\<close>

theorem handle_stops_at_first_failure:
  assumes d: "migrate_table_truncate_load L E bs ''departments'' w = (okd, o1, w1)"
      and j: "migrate_table_truncate_load L E bs ''jobs'' w1 = (okj, o2, w2)"
      and e: "migrate_table_truncate_load L E bs ''hired_employees'' w2 = (oke, o3, w3)"
  shows "started (fst (handle L E bs w))
           = (if \<not> okd then [''departments'']
              else if \<not> okj then [''departments'', ''jobs'']
              else [''departments'', ''jobs'', ''hired_employees''])
       \<and> snd (handle L E bs w) = (if \<not> okd then w1 else if \<not> okj then w2 else w3)
       \<and> (last (fst (handle L E bs w)) = MigrationCompleted \<longleftrightarrow> okd \<and> okj \<and> oke)
       \<and> set (map fst (fst (run_full_migration L E bs w)))
           = {''hired_employees'', ''departments'', ''jobs''}"
proof -
  note n1 = migrate_table_no_start[OF d] and n2 = migrate_table_no_start[OF j]
    and n3 = migrate_table_no_start[OF e]
  have a: "started (fst (handle L E bs w))
           = (if \<not> okd then [''departments'']
              else if \<not> okj then [''departments'', ''jobs'']
              else [''departments'', ''jobs'', ''hired_employees''])"
    using d j e n1 n2 n3
    by (cases okd; cases okj; cases oke) (simp_all add: handle_def started_append)
  have b: "snd (handle L E bs w) = (if \<not> okd then w1 else if \<not> okj then w2 else w3)"
    using d j e by (cases okd; cases okj; cases oke) (simp_all add: handle_def)
  have c: "last (fst (handle L E bs w)) = MigrationCompleted \<longleftrightarrow> okd \<and> okj \<and> oke"
    using d j e by (cases okd; cases okj; cases oke) (simp_all add: handle_def)
  have r: "set (map fst (fst (run_full_migration L E bs w)))
           = {''hired_employees'', ''departments'', ''jobs''}"
    unfolding run_full_migration_def migrate_all_keys by (simp add: csv_files_def)
  from a b c r show ?thesis by simp
qed

lemma demo_migrate:
  "migrate_table_truncate_load demo_lib demo_env 1000 t empty_world
     = (if t \<in> {''hired_employees'', ''departments'', ''jobs''}
        then (False, [UploadError t], empty_world\<lparr>log := [CsvStructureFailed (''/app/data/'' @ t @ ''.csv'')]\<rparr>)
        else (False, [TableNotLoaded t], empty_world))"
  by (auto simp: migrate_table_truncate_load_def csv_files_def load_csv_to_minio_def
      validate_csv_structure_def demo_env_def empty_world_def)

theorem handle_stops_at_first_failure_witness:
  "fst (handle demo_lib demo_env 1000 empty_world)
     = [StepStarted ''departments'', UploadError ''departments'', StepFailed ''departments'']
   \<and> started (fst (handle demo_lib demo_env 1000 empty_world)) = [''departments'']"
proof -
  have d: "migrate_table_truncate_load demo_lib demo_env 1000 ''departments'' empty_world
             = (False, [UploadError ''departments''],
                empty_world\<lparr>log := [CsvStructureFailed ''/app/data/departments.csv'']\<rparr>)"
    by (simp add: demo_migrate)
  obtain okj o2 w2 where j: "migrate_table_truncate_load demo_lib demo_env 1000 ''jobs''
      (empty_world\<lparr>log := [CsvStructureFailed ''/app/data/departments.csv'']\<rparr>) = (okj, o2, w2)"
    by (metis prod_cases3)
  obtain oke o3 w3 where e: "migrate_table_truncate_load demo_lib demo_env 1000 ''hired_employees'' w2
      = (oke, o3, w3)"
    by (metis prod_cases3)
  from handle_stops_at_first_failure[OF d j e]
  have "started (fst (handle demo_lib demo_env 1000 empty_world)) = [''departments'']" by simp
  moreover have "fst (handle demo_lib demo_env 1000 empty_world)
     = [StepStarted ''departments'', UploadError ''departments'', StepFailed ''departments'']"
    by (simp add: handle_def d)
  ultimately show ?thesis by simp
qed

text \<open>
  C3 as stated fails for \<open>run_full_migration\<close>: with CSV files that do not pass the structure
  check the first table fails and the two others are processed all the same; the first
  table is \<open>hired_employees\<close>.
\<close>

theorem run_full_migration_counterexample:
  "fst (run_full_migration demo_lib demo_env 1000 empty_world)
     = [(''hired_employees'', Failed), (''departments'', Failed), (''jobs'', Failed)]"
  by (simp add: run_full_migration_def csv_files_def load_csv_to_minio_def
      validate_csv_structure_def demo_env_def empty_world_def get_expected_columns_def Let_def)

section \<open>Properties of the restore\<close>

lemma restore_chunks_count:
  "restore_chunks E t cs d n = (calls, Inr (d', m)) \<Longrightarrow> m = n + length (concat cs)"
proof (induction cs arbitrary: d n calls)
  case Nil
  then show ?case by simp
next
  case (Cons c cs)
  show ?case
  proof (cases "c = []")
    case True
    with Cons show ?thesis by simp
  next
    case False
    with Cons.prems obtain d1 calls1 where
      "restore_chunks E t cs d1 (n + length c) = (calls1, Inr (d', m))"
      by (auto simp: Let_def split: sum.splits prod.splits)
    from Cons.IH[OF this] show ?thesis by simp
  qed
qed

lemma restore_dataframe_count:
  assumes "0 < chunk_size" "restore_dataframe_to_postgres E df t chunk_size w = (Inr n, w')"
  shows "n = length df"
proof -
  from assms(1) have rc: "range_chunks chunk_size df = Inr (chunks_from (nat chunk_size) 0 df)"
    by (simp add: range_chunks_def)
  from assms(2) rc obtain calls pending where
    "restore_chunks E t (chunks_from (nat chunk_size) 0 df) (db w) 0 = (calls, Inr (pending, n))"
    by (auto simp: restore_dataframe_to_postgres_def Let_def split: if_splits sum.splits prod.splits)
  from restore_chunks_count[OF this] chunks_from_concat[of "nat chunk_size" 0 df] assms(1)
  show ?thesis by simp
qed

lemma restore_files_total:
  assumes "0 < chunk_size"
  shows "restore_files E t chunk_size bucket fs tot w = (Inr n, w')
           \<Longrightarrow> n = tot + partition_rows E bucket fs"
proof (induction fs arbitrary: tot w)
  case Nil
  then show ?case by (simp add: partition_rows_def)
next
  case (Cons f fs)
  from Cons.prems obtain df where rt: "read_table E bucket f = Inr df"
    by (auto split: sum.splits)
  show ?case
  proof (cases "df = []")
    case True
    with Cons.prems rt have
      "restore_files E t chunk_size bucket fs tot (w\<lparr>log := log w @ [EmptyParquetFile f]\<rparr>) = (Inr n, w')"
      by (auto split: sum.splits)
    from Cons.IH[OF this] rt True show ?thesis by (simp add: partition_rows_def)
  next
    case False
    with Cons.prems rt obtain k w1 where
      r: "restore_dataframe_to_postgres E df t chunk_size w = (Inr k, w1)" and
      rest: "restore_files E t chunk_size bucket fs (tot + k)
               (w1\<lparr>log := log w1 @ [RestoredFile k f]\<rparr>) = (Inr n, w')"
      by (auto split: sum.splits prod.splits)
    from restore_dataframe_count[OF assms r] have "k = length df" .
    with Cons.IH[OF rest] rt show ?thesis by (simp add: partition_rows_def)
  qed
qed

lemma restore_files_abort:
  "restore_files E t chunk_size bucket fs1 tot w = (Inl e, w1)
     \<Longrightarrow> restore_files E t chunk_size bucket (fs1 @ fs2) tot w = (Inl e, w1)"
proof (induction fs1 arbitrary: tot w)
  case Nil
  then show ?case by simp
next
  case (Cons f fs1)
  then show ?case
    by (auto split: sum.splits prod.splits if_splits)
qed

lemma sorted_strings_Nil: "sorted_strings xs = [] \<longleftrightarrow> xs = []"
proof -
  have "insert_sorted x ys \<noteq> []" for x ys by (cases ys) auto
  then show ?thesis by (cases xs) (auto simp: sorted_strings_def)
qed

lemma restore_returns_bool:
  "fst (restore_table_from_parquet_in_minio E t bp chunk_size w) = PBool True
   \<or> fst (restore_table_from_parquet_in_minio E t bp chunk_size w) = PBool False"
  by (auto simp: restore_table_from_parquet_in_minio_def restore_after_truncate_def Let_def
      split: option.splits prod.splits sum.splits if_splits)

text \<open>
  C9, as amended. A restore returns \<open>True\<close> or \<open>False\<close>, never a number. With a positive chunk
  size, a restore whose partitions all load returns \<open>True\<close> and logs as its total the number
  of rows of all the listed Parquet files of the snapshot. When a partition fails (the
  files up to and including it are \<open>fs1\<close>), the restore ends there, whatever files \<open>fs2\<close>
  come after it, logs the error and returns \<open>False\<close>; the world is the one the failed
  partition left.
\<close>

theorem restore_total_and_abort:
  assumes "0 < chunk_size"
      and "backup_location (default_bucket E) p = (bucket, prefix)"
      and "list_objects E bucket prefix = Inr keys"
      and "filter (ends_with ''.parquet'') keys \<noteq> []"
  shows "(fst (restore_table_from_parquet_in_minio E t bp chunk_size w0) = PBool True
          \<or> fst (restore_table_from_parquet_in_minio E t bp chunk_size w0) = PBool False)
       \<and> (\<forall>n w1. restore_files E t chunk_size bucket
                     (sorted_strings (filter (ends_with ''.parquet'') keys)) 0 w = (Inr n, w1) \<longrightarrow>
             n = partition_rows E bucket (sorted_strings (filter (ends_with ''.parquet'') keys))
             \<and> restore_after_truncate E t p chunk_size w
                 = (PBool True, w1\<lparr>log := log w1 @ [RestoredTotal n t]\<rparr>))
       \<and> (\<forall>fs1 fs2 e w1. sorted_strings (filter (ends_with ''.parquet'') keys) = fs1 @ fs2 \<longrightarrow>
             restore_files E t chunk_size bucket fs1 0 w = (Inl e, w1) \<longrightarrow>
             restore_after_truncate E t p chunk_size w
               = (PBool False, w1\<lparr>log := log w1 @ [RestoreFailed t]\<rparr>))"
proof -
  let ?files = "sorted_strings (filter (ends_with ''.parquet'') keys)"
  have ok: "n = partition_rows E bucket ?files
            \<and> restore_after_truncate E t p chunk_size w
                = (PBool True, w1\<lparr>log := log w1 @ [RestoredTotal n t]\<rparr>)"
    if "restore_files E t chunk_size bucket ?files 0 w = (Inr n, w1)" for n w1
    using that restore_files_total[OF assms(1) that] assms(2,3,4)
    by (simp add: restore_after_truncate_def Let_def)
  have ab: "restore_after_truncate E t p chunk_size w
              = (PBool False, w1\<lparr>log := log w1 @ [RestoreFailed t]\<rparr>)"
    if "?files = fs1 @ fs2" "restore_files E t chunk_size bucket fs1 0 w = (Inl e, w1)"
    for fs1 fs2 e w1
  proof -
    from restore_files_abort[OF that(2), of fs2] that(1)
    have "restore_files E t chunk_size bucket ?files 0 w = (Inl e, w1)" by simp
    with assms(2,3,4) show ?thesis by (simp add: restore_after_truncate_def Let_def)
  qed
  from restore_returns_bool ok ab show ?thesis by blast
qed

lemma two_part_files:
  "sorted_strings (filter (ends_with ''.parquet'')
      [backup_key, ''backups/departments/20251007T123456/part-0001.parquet''])
   = [backup_key, ''backups/departments/20251007T123456/part-0001.parquet'']"
  by (simp add: backup_key_def ends_with_def sorted_strings_def)

lemma two_part_restore_files:
  "restore_files two_part_env ''departments'' 1000 ''data-migration''
      [backup_key, ''backups/departments/20251007T123456/part-0001.parquet''] 0 empty_world
     = (Inl StorageError,
        empty_world\<lparr>db := empty_db\<lparr>departments := three_departments\<rparr>,
          copy_calls := [(''departments'', [''id'', ''name''], three_departments)],
          log := [RestoredFile 3 backup_key]\<rparr>)"
  by (simp add: two_part_env_def demo_env_def backup_key_def empty_world_def empty_db_def
      restore_dataframe_to_postgres_def range_chunks_def chunks_from_step chunks_from_done
      three_departments_def restore_columns_def copy_from_def known_table_def pg_insert_def Let_def)

theorem restore_total_and_abort_witness:
  "(0::int) < 1000
   \<and> backup_location (default_bucket two_part_env) backup_path = (''data-migration'', backup_prefix)
   \<and> list_objects two_part_env ''data-migration'' backup_prefix
       = Inr [backup_key, ''backups/departments/20251007T123456/part-0001.parquet'']
   \<and> filter (ends_with ''.parquet'')
        [backup_key, ''backups/departments/20251007T123456/part-0001.parquet''] \<noteq> []
   \<and> restore_after_truncate two_part_env ''departments'' backup_path 1000 empty_world
       = (PBool False,
          empty_world\<lparr>db := empty_db\<lparr>departments := three_departments\<rparr>,
            copy_calls := [(''departments'', [''id'', ''name''], three_departments)],
            log := [RestoredFile 3 backup_key, RestoreFailed ''departments'']\<rparr>)"
proof -
  have h1: "(0::int) < 1000" by simp
  have h2: "backup_location (default_bucket two_part_env) backup_path = (''data-migration'', backup_prefix)"
    by (simp add: backup_location_def backup_path_def backup_prefix_def rstrip_slash_def
        two_part_env_def demo_env_def)
  have h3: "list_objects two_part_env ''data-migration'' backup_prefix
       = Inr [backup_key, ''backups/departments/20251007T123456/part-0001.parquet'']"
    by (simp add: two_part_env_def)
  have h4: "filter (ends_with ''.parquet'')
        [backup_key, ''backups/departments/20251007T123456/part-0001.parquet''] \<noteq> []"
    by (simp add: backup_key_def ends_with_def)
  from restore_total_and_abort[OF h1 h2 h3 h4, of "''departments''" None empty_world empty_world]
  have step: "\<forall>fs1 fs2 e w1.
          sorted_strings (filter (ends_with ''.parquet'')
            [backup_key, ''backups/departments/20251007T123456/part-0001.parquet'']) = fs1 @ fs2 \<longrightarrow>
          restore_files two_part_env ''departments'' 1000 ''data-migration'' fs1 0 empty_world = (Inl e, w1) \<longrightarrow>
          restore_after_truncate two_part_env ''departments'' backup_path 1000 empty_world
            = (PBool False, w1\<lparr>log := log w1 @ [RestoreFailed ''departments'']\<rparr>)"
    by blast
  have app: "sorted_strings (filter (ends_with ''.parquet'')
            [backup_key, ''backups/departments/20251007T123456/part-0001.parquet''])
          = [backup_key, ''backups/departments/20251007T123456/part-0001.parquet''] @ []"
    by (simp only: two_part_files append_Nil2)
  from step[rule_format, OF app two_part_restore_files]
  have "restore_after_truncate two_part_env ''departments'' backup_path 1000 empty_world
       = (PBool False,
          (empty_world\<lparr>db := empty_db\<lparr>departments := three_departments\<rparr>,
            copy_calls := [(''departments'', [''id'', ''name''], three_departments)],
            log := [RestoredFile 3 backup_key]\<rparr>)\<lparr>log := [RestoredFile 3 backup_key] @ [RestoreFailed ''departments'']\<rparr>)"
    by (simp add: empty_world_def)
  with h1 h2 h3 h4 show ?thesis by (simp add: empty_world_def)
qed

lemma backup_restore:
  "restore_table_from_parquet_in_minio backup_env ''departments''
      (Some ''backups/departments/20251007T123456/'') 1000 empty_world
     = (PBool True,
        empty_world\<lparr>db := empty_db\<lparr>departments := three_departments\<rparr>,
          copy_calls := [(''departments'', [''id'', ''name''], three_departments)],
          log := [Truncated ''departments'', RestoredFile 3 backup_key,
                  RestoredTotal 3 ''departments'']\<rparr>)"
  by (simp add: restore_table_from_parquet_in_minio_def truncate_table_before_load_def
      restore_after_truncate_def backup_location_def rstrip_slash_def backup_env_def demo_env_def
      known_table_def pg_truncate_def empty_world_def empty_db_def backup_key_def ends_with_def
      sorted_strings_def restore_dataframe_to_postgres_def range_chunks_def
      chunks_from_step chunks_from_done three_departments_def restore_columns_def copy_from_def
      pg_insert_def Let_def)

text \<open>
  C9 as stated fails: the restore of a snapshot with one partition of three rows returns
  \<open>True\<close>, not the number of rows restored.
\<close>

theorem restore_returns_true_counterexample:
  "fst (restore_table_from_parquet_in_minio backup_env ''departments''
          (Some ''backups/departments/20251007T123456/'') 1000 empty_world) = PBool True
   \<and> partition_rows backup_env (default_bucket backup_env) [backup_key] = 3
   \<and> fst (restore_table_from_parquet_in_minio backup_env ''departments''
          (Some ''backups/departments/20251007T123456/'') 1000 empty_world) \<noteq> PInt 3"
proof -
  have "partition_rows backup_env (default_bucket backup_env) [backup_key] = 3"
    by (simp add: partition_rows_def backup_env_def three_departments_def)
  then show ?thesis by (simp add: backup_restore)
qed

section \<open>Referential checks on the paths that insert employees\<close>
















section \<open>Employee records without id\<close>

lemma map_of_keyed:
  "map_of (map (\<lambda>c. (c, f c)) cols) c = (if c \<in> set cols then Some (f c) else None)"
  by (induction cols) auto


lemma frame_of_cell:
  "c \<in> set (frame_columns items) \<Longrightarrow>
     map_of (map (\<lambda>c. (c, (case map_of r c of None \<Rightarrow> PNone | Some v \<Rightarrow> v))) (frame_columns items)) c
       = Some (case map_of r c of None \<Rightarrow> PNone | Some v \<Rightarrow> v)"
  by (simp add: map_of_keyed)





















end
